theory Spec2Isabelle
  imports Complex_Main
begin

section \<open>JavaScript values and built-ins used by the agents\<close>

text \<open>
  The agents are TypeScript classes whose \<^verbatim>\<open>analyze\<close> method maps a context object to an
  \<^verbatim>\<open>AgentRecommendation\<close>. The embedding follows the TypeScript interfaces:

  \<^item> a JavaScript number is a rational (\<open>rat\<close>): every finite double is one, and comparisons of
    doubles are exact. The few arithmetic operations of the agents (a difference, a quotient, a
    product with 100, a sum) are exact here, not rounded to the nearest double. A quotient whose
    divisor may be zero yields a \<open>jsnum\<close>, which has NaN and the two infinities; no input is
    one of these;
  \<^item> a string is the list of its UTF-8 bytes;
  \<^item> an optional property (\<^verbatim>\<open>p?: T\<close>) is a \<open>T option\<close>, \<open>None\<close> standing for a missing key as
    well as for the value \<^verbatim>\<open>undefined\<close>;
  \<^item> a property that \<^verbatim>\<open>validateContext\<close> requires is a \<open>T field\<close>, which tells a missing key
    (\<open>Absent\<close>) from a key holding \<^verbatim>\<open>undefined\<close> or \<^verbatim>\<open>null\<close>; a value that is there has
    the type its interface declares;
  \<^item> a thrown exception is the \<open>Inl\<close> of a sum; \<^verbatim>\<open>console.log\<close> and \<^verbatim>\<open>new Date()\<close> act on
    an explicit \<open>world\<close>.
\<close>

datatype 'a field = Absent | Undef | Null | Val 'a

datatype jsnum = Fin rat | NaN | PosInf | NegInf

datatype jsval =
    JUndefined
  | JNull
  | JNum jsnum
  | JStr string
  | JBool bool
  | JArr "jsval list"
  | JObj "(string \<times> jsval) list"

datatype error = Error string | TypeError

text \<open>
  Three built-ins of the language are parameters of the model: the conversion of a number to a
  string that a template literal applies, \<^verbatim>\<open>Number.prototype.toFixed(1)\<close>, and \<^verbatim>\<open>parseInt\<close>
  (\<open>None\<close> is NaN). Every theorem below holds for all of them.
\<close>

record builtins =
  numberToString :: "rat \<Rightarrow> string"
  toFixed1 :: "jsnum \<Rightarrow> string"
  parseInt :: "string \<Rightarrow> rat option"

definition jnum :: "rat \<Rightarrow> jsval" where
  "jnum x = JNum (Fin x)"

definition jopt :: "('a \<Rightarrow> jsval) \<Rightarrow> 'a option \<Rightarrow> jsval" where
  "jopt f v = (case v of None \<Rightarrow> JUndefined | Some x \<Rightarrow> f x)"

definition jfield :: "('a \<Rightarrow> jsval) \<Rightarrow> 'a field \<Rightarrow> jsval" where
  "jfield f v = (case v of Val x \<Rightarrow> f x | Null \<Rightarrow> JNull | _ \<Rightarrow> JUndefined)"

text \<open>\<^verbatim>\<open>`${v}`\<close> for an optional number and for a required one.\<close>

definition opt_str :: "builtins \<Rightarrow> rat option \<Rightarrow> string" where
  "opt_str B v = (case v of None \<Rightarrow> ''undefined'' | Some x \<Rightarrow> numberToString B x)"

definition field_str :: "builtins \<Rightarrow> rat field \<Rightarrow> string" where
  "field_str B v =
     (case v of Val x \<Rightarrow> numberToString B x | Null \<Rightarrow> ''null'' | _ \<Rightarrow> ''undefined'')"

text \<open>
  \<^verbatim>\<open>v >= n\<close> for a required number: \<^verbatim>\<open>undefined\<close> converts to NaN, which compares false,
  and \<^verbatim>\<open>null\<close> converts to 0.
\<close>

definition field_ge :: "rat field \<Rightarrow> rat \<Rightarrow> bool" where
  "field_ge v n = (case v of Val x \<Rightarrow> x \<ge> n | Null \<Rightarrow> 0 \<ge> n | _ \<Rightarrow> False)"

text \<open>\<^verbatim>\<open>v && v < n\<close> and its relatives: a number is truthy when it is not 0.\<close>

definition truthy_num :: "rat option \<Rightarrow> bool" where
  "truthy_num v = (case v of None \<Rightarrow> False | Some x \<Rightarrow> x \<noteq> 0)"

definition truthy_lt :: "rat option \<Rightarrow> rat \<Rightarrow> bool" where
  "truthy_lt v n = (case v of None \<Rightarrow> False | Some x \<Rightarrow> x \<noteq> 0 \<and> x < n)"

definition truthy_gt :: "rat option \<Rightarrow> rat \<Rightarrow> bool" where
  "truthy_gt v n = (case v of None \<Rightarrow> False | Some x \<Rightarrow> x \<noteq> 0 \<and> x > n)"

definition truthy_ge :: "rat option \<Rightarrow> rat \<Rightarrow> bool" where
  "truthy_ge v n = (case v of None \<Rightarrow> False | Some x \<Rightarrow> x \<noteq> 0 \<and> x \<ge> n)"

definition truthy_eq :: "rat option \<Rightarrow> rat \<Rightarrow> bool" where
  "truthy_eq v n = (case v of None \<Rightarrow> False | Some x \<Rightarrow> x \<noteq> 0 \<and> x = n)"

text \<open>\<^verbatim>\<open>Array.prototype.join\<close> on strings.\<close>

fun join :: "string \<Rightarrow> string list \<Rightarrow> string" where
  "join sep [] = []"
| "join sep [x] = x"
| "join sep (x # y # ys) = x @ sep @ join sep (y # ys)"

text \<open>
  \<^verbatim>\<open>String.prototype.includes\<close>: the needle occurs as a contiguous block
  (\<^verbatim>\<open>includes\<close> is a keyword of Isabelle, hence the prefix).
\<close>

fun starts_with :: "string \<Rightarrow> string \<Rightarrow> bool" where
  "starts_with s [] = True"
| "starts_with [] (n # ns) = False"
| "starts_with (c # cs) (n # ns) = (c = n \<and> starts_with cs ns)"

fun str_includes :: "string \<Rightarrow> string \<Rightarrow> bool" where
  "str_includes [] needle = (needle = [])"
| "str_includes (c # cs) needle = (starts_with (c # cs) needle \<or> str_includes cs needle)"

text \<open>
  \<^verbatim>\<open>String.prototype.toLowerCase\<close> on the letters A to Z; every other byte is kept. (The
  language also maps letters outside ASCII; among them only U+0130 and U+212A have a lower case
  with an ASCII letter in it.)
\<close>

definition lower_char :: "char \<Rightarrow> char" where
  "lower_char c =
    (if c = CHR ''A'' then CHR ''a'' else if c = CHR ''B'' then CHR ''b''
     else if c = CHR ''C'' then CHR ''c'' else if c = CHR ''D'' then CHR ''d''
     else if c = CHR ''E'' then CHR ''e'' else if c = CHR ''F'' then CHR ''f''
     else if c = CHR ''G'' then CHR ''g'' else if c = CHR ''H'' then CHR ''h''
     else if c = CHR ''I'' then CHR ''i'' else if c = CHR ''J'' then CHR ''j''
     else if c = CHR ''K'' then CHR ''k'' else if c = CHR ''L'' then CHR ''l''
     else if c = CHR ''M'' then CHR ''m'' else if c = CHR ''N'' then CHR ''n''
     else if c = CHR ''O'' then CHR ''o'' else if c = CHR ''P'' then CHR ''p''
     else if c = CHR ''Q'' then CHR ''q'' else if c = CHR ''R'' then CHR ''r''
     else if c = CHR ''S'' then CHR ''s'' else if c = CHR ''T'' then CHR ''t''
     else if c = CHR ''U'' then CHR ''u'' else if c = CHR ''V'' then CHR ''v''
     else if c = CHR ''W'' then CHR ''w'' else if c = CHR ''X'' then CHR ''x''
     else if c = CHR ''Y'' then CHR ''y'' else if c = CHR ''Z'' then CHR ''z''
     else c)"

definition toLowerCase :: "string \<Rightarrow> string" where
  "toLowerCase s = map lower_char s"

section \<open>The world: clock and console\<close>

text \<open>
  \<^verbatim>\<open>BaseAgent.log\<close> reads the clock (\<^verbatim>\<open>new Date().toISOString()\<close>) and writes one entry to
  the console. The clock is the sequence of its future readings; \<open>ticks\<close> counts the readings
  made so far. The console keeps each entry as the object handed to \<^verbatim>\<open>JSON.stringify\<close>.
\<close>

datatype logdata = Data jsval | Thrown error

record log_entry =
  le_timestamp :: string
  le_agent :: string
  le_level :: string
  le_message :: string
  le_data :: logdata

record world =
  clock :: "nat \<Rightarrow> string"
  ticks :: nat
  console :: "log_entry list"

definition log :: "world \<Rightarrow> string \<Rightarrow> string \<Rightarrow> string \<Rightarrow> logdata \<Rightarrow> world" where
  "log w agent level message d =
     w\<lparr>ticks := Suc (ticks w),
       console := console w @
         [\<lparr>le_timestamp = clock w (ticks w), le_agent = agent, le_level = level,
           le_message = message, le_data = d\<rparr>]\<rparr>"

section \<open>base-agent.ts\<close>

datatype priority = Low | Medium | High | Critical

record AgentRecommendation =
  decision :: string
  rationale :: string
  inputSignals :: jsval
  outputActions :: "string list"
  approvalRequired :: bool
  priority :: priority

record AgentContext =
  tripId :: "string field"
  userId :: "string field"
  date :: "string field"

text \<open>
  \<^verbatim>\<open>validateContext\<close>: \<open>has\<close> is the test \<^verbatim>\<open>field in context\<close> of the context at hand. The
  error is a plain \<^verbatim>\<open>Error\<close> whose message names the agent and the missing fields.
\<close>

definition validateContext :: "string \<Rightarrow> (string \<Rightarrow> bool) \<Rightarrow> string list \<Rightarrow> error + unit" where
  "validateContext agent has requiredFields =
     (let missing = filter (\<lambda>f. \<not> has f) requiredFields in
      if length missing > 0
      then Inl (Error (agent @ '' missing required context fields: '' @ join '', '' missing))
      else Inr ())"

definition createRecommendation ::
  "string \<Rightarrow> string \<Rightarrow> jsval \<Rightarrow> string list \<Rightarrow> bool option \<Rightarrow> priority option
     \<Rightarrow> AgentRecommendation" where
  "createRecommendation d r signals actions approval prio =
     \<lparr>decision = d, rationale = r, inputSignals = signals, outputActions = actions,
      approvalRequired = (case approval of None \<Rightarrow> False | Some a \<Rightarrow> a),
      priority = (case prio of None \<Rightarrow> Medium | Some p \<Rightarrow> p)\<rparr>"

definition priority_js :: "priority \<Rightarrow> jsval" where
  "priority_js p =
     JStr (case p of Low \<Rightarrow> ''low'' | Medium \<Rightarrow> ''medium'' | High \<Rightarrow> ''high''
           | Critical \<Rightarrow> ''critical'')"

definition recommendation_js :: "AgentRecommendation \<Rightarrow> jsval" where
  "recommendation_js r =
     JObj [(''decision'', JStr (decision r)), (''rationale'', JStr (rationale r)),
           (''inputSignals'', inputSignals r),
           (''outputActions'', JArr (map JStr (outputActions r))),
           (''approvalRequired'', JBool (approvalRequired r)),
           (''priority'', priority_js (priority r))]"

section \<open>health-recovery-agent.ts\<close>

datatype load = LoadLow | LoadMedium | LoadHigh

record EnvironmentalStress =
  heat :: "bool option"
  es_humidity :: "bool option"
  travel :: "bool option"

record WellnessProfile =
  stepsTarget :: rat
  mobilityLevel :: string

record PlannedActivity =
  activity_type :: string
  physicalLoad :: load
  estimatedSteps :: "rat option"

record HealthRecoveryContext = AgentContext +
  sleepQuality :: "rat option"
  energyRating :: "rat option"
  consecutiveActiveDays :: "rat field"
  environmentalStress :: "EnvironmentalStress option"
  wellnessProfile :: "WellnessProfile option"
  plannedActivity :: "PlannedActivity option"

text \<open>The \<^verbatim>\<open>signals\<close> object of the agent, field by field.\<close>

record HealthSignals =
  s_sleepQuality :: "rat option"
  s_energyRating :: "rat option"
  s_consecutiveActiveDays :: "rat field"
  s_environmentalStress :: "EnvironmentalStress option"
  s_mobilityLevel :: "string option"
  s_stepsTarget :: rat
  s_plannedSteps :: "rat option"
  s_physicalLoad :: "load option"

definition health_name :: string where
  "health_name = ''Health & Recovery Agent''"

text \<open>\<^verbatim>\<open>field in context\<close> for the keys the agent requires.\<close>

definition HealthRecoveryContext_has :: "HealthRecoveryContext \<Rightarrow> string \<Rightarrow> bool" where
  "HealthRecoveryContext_has c k =
     (if k = ''tripId'' then tripId c \<noteq> Absent
      else if k = ''userId'' then userId c \<noteq> Absent
      else if k = ''date'' then date c \<noteq> Absent
      else if k = ''consecutiveActiveDays'' then consecutiveActiveDays c \<noteq> Absent
      else False)"

definition load_js :: "load \<Rightarrow> jsval" where
  "load_js l =
     JStr (case l of LoadLow \<Rightarrow> ''low'' | LoadMedium \<Rightarrow> ''medium'' | LoadHigh \<Rightarrow> ''high'')"

definition EnvironmentalStress_js :: "EnvironmentalStress \<Rightarrow> jsval" where
  "EnvironmentalStress_js e =
     JObj [(''heat'', jopt JBool (heat e)), (''humidity'', jopt JBool (es_humidity e)),
           (''travel'', jopt JBool (travel e))]"

definition HealthSignals_js :: "HealthSignals \<Rightarrow> jsval" where
  "HealthSignals_js s =
     JObj [(''sleepQuality'', jopt jnum (s_sleepQuality s)),
           (''energyRating'', jopt jnum (s_energyRating s)),
           (''consecutiveActiveDays'', jfield jnum (s_consecutiveActiveDays s)),
           (''environmentalStress'', jopt EnvironmentalStress_js (s_environmentalStress s)),
           (''mobilityLevel'', jopt JStr (s_mobilityLevel s)),
           (''stepsTarget'', jnum (s_stepsTarget s)),
           (''plannedSteps'', jopt jnum (s_plannedSteps s)),
           (''physicalLoad'', jopt load_js (s_physicalLoad s))]"

definition HealthRecoveryAgent_collectSignals :: "HealthRecoveryContext \<Rightarrow> HealthSignals" where
  "HealthRecoveryAgent_collectSignals context =
     \<lparr>s_sleepQuality = sleepQuality context,
      s_energyRating = energyRating context,
      s_consecutiveActiveDays = consecutiveActiveDays context,
      s_environmentalStress = environmentalStress context,
      s_mobilityLevel = map_option mobilityLevel (wellnessProfile context),
      s_stepsTarget =
        (case wellnessProfile context of
           None \<Rightarrow> 8000
         | Some p \<Rightarrow> if stepsTarget p \<noteq> 0 then stepsTarget p else 8000),
      s_plannedSteps =
        (case plannedActivity context of None \<Rightarrow> None | Some a \<Rightarrow> estimatedSteps a),
      s_physicalLoad = map_option physicalLoad (plannedActivity context)\<rparr>"

definition stressors :: "EnvironmentalStress \<Rightarrow> nat" where
  "stressors e =
     length (filter (\<lambda>v. v = Some True) [heat e, es_humidity e, travel e])"

definition assessRiskLevel :: "HealthSignals \<Rightarrow> priority" where
  "assessRiskLevel signals =
     (let riskScore =
        (if truthy_lt (s_sleepQuality signals) 3 then 2 else 0)
        + (if truthy_lt (s_energyRating signals) 3 then 2 else 0)
        + (if field_ge (s_consecutiveActiveDays signals) 3 then 1 else 0)
        + (if field_ge (s_consecutiveActiveDays signals) 5 then 2 else 0)
        + (case s_environmentalStress signals of None \<Rightarrow> 0 | Some e \<Rightarrow> stressors e)
        + (if s_physicalLoad signals = Some LoadHigh then 1 else 0)
        + (if s_stepsTarget signals \<noteq> 0
              \<and> truthy_gt (s_plannedSteps signals) (s_stepsTarget signals) then 1 else 0)
      in if riskScore \<ge> 6 then Critical
         else if riskScore \<ge> 4 then High
         else if riskScore \<ge> 2 then Medium
         else Low)"

definition requiresFullRestDay :: "HealthSignals \<Rightarrow> bool" where
  "requiresFullRestDay signals =
     (truthy_lt (s_sleepQuality signals) 3
      \<or> truthy_lt (s_energyRating signals) 2
      \<or> field_ge (s_consecutiveActiveDays signals) 5)"

definition recommendFullRestDay :: "builtins \<Rightarrow> HealthSignals \<Rightarrow> AgentRecommendation" where
  "recommendFullRestDay B signals =
     (let reasons =
        (if truthy_lt (s_sleepQuality signals) 3
         then [''poor sleep quality ('' @ opt_str B (s_sleepQuality signals) @ ''/5)'']
         else [])
        @ (if truthy_lt (s_energyRating signals) 2
           then [''critically low energy ('' @ opt_str B (s_energyRating signals) @ ''/5)'']
           else [])
        @ (if field_ge (s_consecutiveActiveDays signals) 5
           then [field_str B (s_consecutiveActiveDays signals) @ '' consecutive active days'']
           else [])
      in createRecommendation
           ''Cancel all planned activities - full rest day required''
           (''Recovery day needed due to: '' @ join '', '' reasons @ ''. ''
            @ ''Traveler well-being requires complete rest to prevent burnout and maintain trip enjoyment.'')
           (HealthSignals_js signals)
           [''Cancel all scheduled activities for the day'',
            ''Schedule spa or massage treatment'',
            ''Allow sleeping in without alarm'',
            ''Light pool or lounge time only'',
            ''Early dinner and bedtime'']
           (Some True) (Some Critical))"

definition requiresActivityModeration :: "HealthSignals \<Rightarrow> HealthRecoveryContext \<Rightarrow> bool" where
  "requiresActivityModeration signals context =
     (if plannedActivity context = None then False
      else (truthy_gt (s_plannedSteps signals) (s_stepsTarget signals)
            \<or> (s_physicalLoad signals = Some LoadHigh \<and> truthy_lt (s_energyRating signals) 4)
            \<or> (field_ge (s_consecutiveActiveDays signals) 3
                \<and> s_physicalLoad signals = Some LoadHigh)))"

definition recommendActivityModeration ::
  "builtins \<Rightarrow> HealthSignals \<Rightarrow> HealthRecoveryContext \<Rightarrow> AgentRecommendation" where
  "recommendActivityModeration B signals context =
     (let substitutions =
        (if truthy_gt (s_plannedSteps signals) (s_stepsTarget signals)
         then [''Reduce walking to <'' @ numberToString B (s_stepsTarget signals) @ '' steps'',
               ''Consider private car for longer distances'',
               ''Schedule midday rest break'']
         else [])
        @ (if map_option activity_type (plannedActivity context) = Some ''cultural''
           then [''Select seated cultural experience (theater, tea ceremony)'',
                 ''Avoid walking tours'',
                 ''Choose venue with climate control'']
           else [])
      in createRecommendation
           ''Moderate planned activity to reduce physical load''
           (''Current activity plan exceeds recommended load for energy level ''
            @ opt_str B (s_energyRating signals) @ ''/5 '' @ ''after ''
            @ field_str B (s_consecutiveActiveDays signals) @ '' consecutive active days.'')
           (HealthSignals_js signals)
           substitutions
           (Some True) (Some High))"

definition shouldInsertWellnessActivity :: "HealthSignals \<Rightarrow> bool" where
  "shouldInsertWellnessActivity signals =
     (field_ge (s_consecutiveActiveDays signals) 3
      \<or> truthy_eq (s_energyRating signals) 3
      \<or> truthy_eq (s_sleepQuality signals) 3)"

definition recommendWellnessActivity :: "HealthSignals \<Rightarrow> AgentRecommendation" where
  "recommendWellnessActivity signals =
     createRecommendation
       ''Insert wellness activity into schedule''
       ''Proactive recovery recommended to maintain energy levels and prevent fatigue accumulation.''
       (HealthSignals_js signals)
       [''Schedule 60-90 minute spa treatment'',
        ''Afternoon pool or relaxation time'',
        ''Early evening with no commitments'',
        ''Light, digestible dinner'',
        ''Ensure 8+ hours sleep opportunity'']
       (Some False) (Some Medium)"

definition HealthRecoveryAgent_analyze ::
  "builtins \<Rightarrow> world \<Rightarrow> HealthRecoveryContext \<Rightarrow> (error + AgentRecommendation) \<times> world" where
  "HealthRecoveryAgent_analyze B w context =
     (case validateContext health_name (HealthRecoveryContext_has context)
             [''tripId'', ''userId'', ''date'', ''consecutiveActiveDays''] of
        Inl e \<Rightarrow> (Inl e, w)
      | Inr _ \<Rightarrow>
         (let signals = HealthRecoveryAgent_collectSignals context;
              riskLevel = assessRiskLevel signals;
              w' = log w health_name ''info'' ''Analyzing health & recovery needs''
                     (Data (JObj [(''signals'', HealthSignals_js signals),
                                  (''riskLevel'', priority_js riskLevel)]))
          in if requiresFullRestDay signals
             then (Inr (recommendFullRestDay B signals), w')
             else if requiresActivityModeration signals context
             then (Inr (recommendActivityModeration B signals context), w')
             else if shouldInsertWellnessActivity signals
             then (Inr (recommendWellnessActivity signals), w')
             else (Inr (createRecommendation
                          ''Proceed with planned activities''
                          ''Health indicators are within acceptable ranges. No intervention required.''
                          (HealthSignals_js signals) [] None (Some Low)), w')))"

section \<open>golf-operations-agent.ts\<close>

record Weather =
  condition :: string
  temperature :: rat
  humidity :: rat
  rainfall :: "rat option"

datatype difficulty = Easy | Moderate | Challenging

datatype climate = Hot | Cool | Mountain

record Course =
  name :: string
  travelTime :: rat
  difficulty :: difficulty
  climate :: climate

text \<open>
  \<^verbatim>\<open>availableCourses\<close> is an option although the interface requires it:
  \<^verbatim>\<open>recommendOptimalCourse\<close> itself reads it as \<^verbatim>\<open>context.availableCourses || []\<close>. Of
  \<^verbatim>\<open>recentRounds\<close> only the length is read, so a round is any value.
\<close>

record GolfOperationsContext = AgentContext +
  location :: "string field"
  recentRounds :: "jsval list option"
  energyLevel :: "rat option"
  weatherForecast :: "Weather option"
  consecutiveGolfDays :: rat
  availableCourses :: "Course list option"

record GolfSignals =
  g_consecutiveGolfDays :: rat
  g_energyLevel :: "rat option"
  g_weather :: "Weather option"
  g_recentRounds :: nat
  g_location :: "string field"

definition golf_name :: string where
  "golf_name = ''Vietnam Golf Operations Agent''"

definition PREFERRED_REPEAT_COURSES :: "string list" where
  "PREFERRED_REPEAT_COURSES = [''Ba Na Hills Golf Club'', ''Montgomerie Links Vietnam'']"

definition GolfOperationsContext_has :: "GolfOperationsContext \<Rightarrow> string \<Rightarrow> bool" where
  "GolfOperationsContext_has c k =
     (if k = ''tripId'' then tripId c \<noteq> Absent
      else if k = ''userId'' then userId c \<noteq> Absent
      else if k = ''date'' then date c \<noteq> Absent
      else if k = ''location'' then location c \<noteq> Absent
      else False)"

definition Weather_js :: "Weather \<Rightarrow> jsval" where
  "Weather_js x =
     JObj [(''condition'', JStr (condition x)), (''temperature'', jnum (temperature x)),
           (''humidity'', jnum (humidity x)), (''rainfall'', jopt jnum (rainfall x))]"

definition GolfSignals_js :: "GolfSignals \<Rightarrow> jsval" where
  "GolfSignals_js s =
     JObj [(''consecutiveGolfDays'', jnum (g_consecutiveGolfDays s)),
           (''energyLevel'', jopt jnum (g_energyLevel s)),
           (''weather'', jopt Weather_js (g_weather s)),
           (''recentRounds'', jnum (of_nat (g_recentRounds s))),
           (''location'', jfield JStr (g_location s))]"

definition isVietnamLocation :: "string \<Rightarrow> bool" where
  "isVietnamLocation loc =
     (let vietnamCities = [''hanoi'', ''da nang'', ''hoi an'', ''ho chi minh'', ''saigon'']
      in list_ex (\<lambda>city. str_includes (toLowerCase loc) city) vietnamCities)"

definition GolfOperationsAgent_collectSignals :: "GolfOperationsContext \<Rightarrow> GolfSignals" where
  "GolfOperationsAgent_collectSignals context =
     \<lparr>g_consecutiveGolfDays = consecutiveGolfDays context,
      g_energyLevel = energyLevel context,
      g_weather = weatherForecast context,
      g_recentRounds = (case recentRounds context of None \<Rightarrow> 0 | Some rs \<Rightarrow> length rs),
      g_location = location context\<rparr>"

definition shouldSkipGolf :: "GolfSignals \<Rightarrow> bool" where
  "shouldSkipGolf signals =
     (if g_consecutiveGolfDays signals \<ge> 1 \<and> truthy_lt (g_energyLevel signals) 4 then True
      else if g_consecutiveGolfDays signals \<ge> 2 then True
      else False)"

definition recommendSkipGolf :: "builtins \<Rightarrow> GolfSignals \<Rightarrow> AgentRecommendation" where
  "recommendSkipGolf B signals =
     (let (rationale, actions) =
        (if g_consecutiveGolfDays signals \<ge> 2
         then (numberToString B (g_consecutiveGolfDays signals)
                 @ '' consecutive golf days exceeds safe physical load. ''
                 @ ''Recovery day needed to prevent joint strain and fatigue.'',
               [''Cancel planned golf round'', ''Insert recovery day'',
                ''Schedule spa or massage treatment''])
         else if truthy_lt (g_energyLevel signals) 4
         then (''Energy level '' @ opt_str B (g_energyLevel signals)
                 @ ''/5 is too low for golf after playing yesterday. ''
                 @ ''Risk of poor performance and reduced enjoyment.'',
               [''Cancel planned golf round'', ''Insert recovery day'',
                ''Consider practice range or short game only (optional)''])
         else ('''', [''Cancel planned golf round'', ''Insert recovery day'']))
      in createRecommendation ''Skip golf - force recovery day'' rationale
           (GolfSignals_js signals) actions (Some True) (Some High))"

definition shouldSubstituteCourse :: "GolfSignals \<Rightarrow> GolfOperationsContext \<Rightarrow> bool" where
  "shouldSubstituteCourse signals context =
     (case g_weather signals of
        None \<Rightarrow> False
      | Some weather \<Rightarrow>
          if truthy_gt (rainfall weather) 10 then True
          else if temperature weather > 35
                  \<or> (temperature weather > 32 \<and> humidity weather > 80) then True
          else False)"

text \<open>The degree sign of the source is U+00B0, the bytes C2 B0.\<close>

definition degree_C :: string where
  "degree_C = [CHR 0xC2, CHR 0xB0, CHR ''C'']"

text \<open>
  Reading a property of \<^verbatim>\<open>undefined\<close> throws a \<^verbatim>\<open>TypeError\<close>: of the weather when there is
  none, of \<^verbatim>\<open>context.availableCourses\<close> when \<^verbatim>\<open>find\<close> is called on it.
\<close>

definition recommendCourseSubstitution ::
  "builtins \<Rightarrow> GolfSignals \<Rightarrow> GolfOperationsContext \<Rightarrow> error + AgentRecommendation" where
  "recommendCourseSubstitution B signals context =
     (case g_weather signals of
        None \<Rightarrow> Inl TypeError
      | Some weather \<Rightarrow>
         (let result =
            (if truthy_gt (rainfall weather) 10
             then Inr (''Heavy rain forecast - course conditions will be poor'',
                       [''Convert to spa day or cultural activity'',
                        ''Reschedule golf to later in week''])
             else if temperature weather > 35
             then (case availableCourses context of
                     None \<Rightarrow> Inl TypeError
                   | Some courses \<Rightarrow>
                      (case find (\<lambda>c. str_includes (name c) ''Ba Na Hills'') courses of
                         Some baNaHills \<Rightarrow>
                           Inr (''High heat forecast (''
                                  @ numberToString B (temperature weather) @ degree_C
                                  @ '') - mountain course preferred'',
                                [''Substitute to '' @ name baNaHills
                                   @ '' (cooler mountain climate)'',
                                 ''Earlier tee time (before 8am)''])
                       | None \<Rightarrow>
                           Inr (''High heat forecast (''
                                  @ numberToString B (temperature weather) @ degree_C
                                  @ '') - adjust timing'',
                                [''Very early tee time (before 7am)'',
                                 ''Extended midpoint break for hydration''])))
             else Inr ('''', []))
          in case result of
               Inl e \<Rightarrow> Inl e
             | Inr (substitution, actions) \<Rightarrow>
                 Inr (createRecommendation ''Substitute golf course due to weather'' substitution
                        (GolfSignals_js signals) actions (Some True) (Some High))))"

text \<open>
  \<^verbatim>\<open>courses.reduce(f)\<close> without an initial value starts from the first course; the function is
  only called on a list that is not empty, given here as its head and its tail.
\<close>

definition selectByTravelTime :: "Course \<Rightarrow> Course list \<Rightarrow> rat option \<Rightarrow> Course" where
  "selectByTravelTime first others energy =
     (if truthy_lt energy 4
      then foldl (\<lambda>closest course.
                    if travelTime course < travelTime closest then course else closest)
             first others
      else first)"

definition buildCourseRationale :: "builtins \<Rightarrow> Course \<Rightarrow> GolfSignals \<Rightarrow> string" where
  "buildCourseRationale B course signals =
     (let reasons =
        (if list_ex (\<lambda>pref. str_includes (name course) pref) PREFERRED_REPEAT_COURSES
         then [''preferred course for repeat play''] else [])
        @ (if climate course = Cool \<or> climate course = Mountain
           then [''cooler climate reduces physical stress''] else [])
        @ (if travelTime course < 30
           then [''minimal travel time preserves energy''] else [])
        @ (if truthy_ge (g_energyLevel signals) 4
           then [''energy level '' @ opt_str B (g_energyLevel signals)
                   @ ''/5 supports full round''] else [])
      in if length reasons > 0
         then ''Selected based on: '' @ join '', '' reasons @ ''.''
         else ''Course selected based on availability and schedule.'')"

definition recommendOptimalCourse ::
  "builtins \<Rightarrow> GolfSignals \<Rightarrow> GolfOperationsContext \<Rightarrow> AgentRecommendation" where
  "recommendOptimalCourse B signals context =
     (case (case availableCourses context of None \<Rightarrow> [] | Some cs \<Rightarrow> cs) of
        [] \<Rightarrow>
          createRecommendation ''No course recommendation - insufficient data''
            ''No available courses provided in context.''
            (GolfSignals_js signals) [] None (Some Low)
      | first # others \<Rightarrow>
         (let recommendedCourse =
            (case find (\<lambda>c. list_ex (\<lambda>pref. str_includes (name c) pref)
                               PREFERRED_REPEAT_COURSES) (first # others) of
               Some c \<Rightarrow> c
             | None \<Rightarrow> selectByTravelTime first others (g_energyLevel signals));
              actions =
                [''Book tee time at '' @ name recommendedCourse,
                 ''Morning tee time only (before 10am)'',
                 ''Confirm caddie and cart included'',
                 ''Travel time: '' @ numberToString B (travelTime recommendedCourse)
                    @ '' minutes'']
          in createRecommendation (''Proceed with golf at '' @ name recommendedCourse)
               (buildCourseRationale B recommendedCourse signals)
               (GolfSignals_js signals) actions (Some False) (Some Medium)))"

definition GolfOperationsAgent_analyze ::
  "builtins \<Rightarrow> world \<Rightarrow> GolfOperationsContext \<Rightarrow> (error + AgentRecommendation) \<times> world" where
  "GolfOperationsAgent_analyze B w context =
     (case validateContext golf_name (GolfOperationsContext_has context)
             [''tripId'', ''userId'', ''date'', ''location''] of
        Inl e \<Rightarrow> (Inl e, w)
      | Inr _ \<Rightarrow>
         (case location context of
            Val loc \<Rightarrow>
              if \<not> isVietnamLocation loc
              then (Inr (createRecommendation ''No golf operations - outside Vietnam''
                           ''Golf activities are only scheduled in Da Nang / Hoi An, Vietnam.''
                           (JObj [(''location'', JStr loc)]) [] None (Some Low)), w)
              else
                (let signals = GolfOperationsAgent_collectSignals context;
                     w' = log w golf_name ''info'' ''Analyzing golf operations''
                            (Data (GolfSignals_js signals))
                 in if shouldSkipGolf signals
                    then (Inr (recommendSkipGolf B signals), w')
                    else if shouldSubstituteCourse signals context
                    then (recommendCourseSubstitution B signals context, w')
                    else (Inr (recommendOptimalCourse B signals context), w'))
          | _ \<Rightarrow> (Inl TypeError, w)))"

section \<open>budget-control-agent.ts\<close>

record Spend =
  planned :: rat
  actual :: rat

text \<open>An element of the array that \<^verbatim>\<open>calculateVariances\<close> returns.\<close>

record Variance = Spend +
  category :: string
  variance :: rat
  variancePercent :: rat

text \<open>
  Of a \<^verbatim>\<open>Trip\<close> the agents read the budget only. \<^verbatim>\<open>categories\<close> and \<^verbatim>\<open>categorySpend\<close> are
  objects read through \<^verbatim>\<open>Object.entries\<close>: the lists of their entries, in the order of
  enumeration.
\<close>

record Budget =
  total :: rat
  spent :: rat
  categories :: "(string \<times> rat option) list"

record Trip =
  budget :: Budget

record PrepaidItem =
  prepaid_category :: string
  amount :: rat
  item :: string

record BudgetControlContext = AgentContext +
  trip :: "Trip field"
  categorySpend :: "(string \<times> Spend) list field"
  upcomingExpenses :: "jsval list option"
  unusedPrepaid :: "PrepaidItem list option"

record BudgetSignals =
  totalBudget :: rat
  totalSpent :: rat
  remainingBudget :: rat
  percentSpent :: jsnum
  categoryCount :: nat
  upcomingExpensesCount :: nat
  unusedPrepaidCount :: nat

definition budget_name :: string where
  "budget_name = ''Budget & Spend Control Agent''"

definition ALERT_THRESHOLD :: rat where
  "ALERT_THRESHOLD = 10 / 100"

definition CRITICAL_THRESHOLD :: rat where
  "CRITICAL_THRESHOLD = 20 / 100"

definition BudgetControlContext_has :: "BudgetControlContext \<Rightarrow> string \<Rightarrow> bool" where
  "BudgetControlContext_has c k =
     (if k = ''tripId'' then tripId c \<noteq> Absent
      else if k = ''userId'' then userId c \<noteq> Absent
      else if k = ''date'' then date c \<noteq> Absent
      else if k = ''trip'' then trip c \<noteq> Absent
      else if k = ''categorySpend'' then categorySpend c \<noteq> Absent
      else False)"

text \<open>
  Reading a property of a required value, or enumerating it: a \<^verbatim>\<open>TypeError\<close> when the value
  is \<^verbatim>\<open>undefined\<close> or \<^verbatim>\<open>null\<close>.
\<close>

definition deref :: "'a field \<Rightarrow> error + 'a" where
  "deref v = (case v of Val x \<Rightarrow> Inr x | _ \<Rightarrow> Inl TypeError)"

text \<open>\<^verbatim>\<open>a / b\<close> and \<^verbatim>\<open>x * 100\<close> on numbers, with the division by zero of the language.\<close>

definition js_div :: "rat \<Rightarrow> rat \<Rightarrow> jsnum" where
  "js_div a b =
     (if b \<noteq> 0 then Fin (a / b)
      else if a = 0 then NaN
      else if a > 0 then PosInf
      else NegInf)"

definition js_times :: "jsnum \<Rightarrow> rat \<Rightarrow> jsnum" where
  "js_times x k =
     (case x of
        Fin v \<Rightarrow> Fin (v * k)
      | NaN \<Rightarrow> NaN
      | PosInf \<Rightarrow> (if k > 0 then PosInf else if k < 0 then NegInf else NaN)
      | NegInf \<Rightarrow> (if k > 0 then NegInf else if k < 0 then PosInf else NaN))"

definition BudgetSignals_js :: "BudgetSignals \<Rightarrow> jsval" where
  "BudgetSignals_js s =
     JObj [(''totalBudget'', jnum (totalBudget s)), (''totalSpent'', jnum (totalSpent s)),
           (''remainingBudget'', jnum (remainingBudget s)),
           (''percentSpent'', JNum (percentSpent s)),
           (''categoryCount'', jnum (of_nat (categoryCount s))),
           (''upcomingExpensesCount'', jnum (of_nat (upcomingExpensesCount s))),
           (''unusedPrepaidCount'', jnum (of_nat (unusedPrepaidCount s)))]"

definition Variance_js :: "Variance \<Rightarrow> jsval" where
  "Variance_js v =
     JObj [(''category'', JStr (category v)), (''planned'', jnum (planned v)),
           (''actual'', jnum (actual v)), (''variance'', jnum (variance v)),
           (''variancePercent'', jnum (variancePercent v))]"

definition BudgetControlAgent_collectSignals :: "BudgetControlContext \<Rightarrow> error + BudgetSignals" where
  "BudgetControlAgent_collectSignals context =
     (case deref (trip context) of
        Inl e \<Rightarrow> Inl e
      | Inr t \<Rightarrow>
         (case deref (categorySpend context) of
            Inl e \<Rightarrow> Inl e
          | Inr entries \<Rightarrow>
              Inr \<lparr>totalBudget = total (budget t),
                   totalSpent = spent (budget t),
                   remainingBudget = total (budget t) - spent (budget t),
                   percentSpent = js_times (js_div (spent (budget t)) (total (budget t))) 100,
                   categoryCount = length entries,
                   upcomingExpensesCount =
                     (case upcomingExpenses context of None \<Rightarrow> 0 | Some es \<Rightarrow> length es),
                   unusedPrepaidCount =
                     (case unusedPrepaid context of None \<Rightarrow> 0 | Some us \<Rightarrow> length us)\<rparr>))"

definition calculateVariances :: "BudgetControlContext \<Rightarrow> error + Variance list" where
  "calculateVariances context =
     (case deref (categorySpend context) of
        Inl e \<Rightarrow> Inl e
      | Inr entries \<Rightarrow>
          Inr (map (\<lambda>(cat, spend).
                 let var = actual spend - planned spend;
                     varPercent = (if planned spend > 0 then var / planned spend else 0)
                 in \<lparr>planned = planned spend, actual = actual spend, category = cat,
                     variance = var, variancePercent = varPercent\<rparr>) entries))"

definition findOverruns :: "Variance list \<Rightarrow> Variance list" where
  "findOverruns variances = filter (\<lambda>v. variancePercent v > ALERT_THRESHOLD) variances"

definition findCriticalOverruns :: "Variance list \<Rightarrow> Variance list" where
  "findCriticalOverruns variances =
     filter (\<lambda>v. variancePercent v > CRITICAL_THRESHOLD) variances"

text \<open>
  The under-budget categories as pairs of category and available amount, largest first
  (\<^verbatim>\<open>Array.prototype.sort\<close> is stable, as is \<open>sort_key\<close>).
\<close>

definition findUnderbudgetCategories :: "BudgetControlContext \<Rightarrow> error + (string \<times> rat) list" where
  "findUnderbudgetCategories context =
     (case deref (categorySpend context) of
        Inl e \<Rightarrow> Inl e
      | Inr entries \<Rightarrow>
          Inr (sort_key (\<lambda>u. - snd u)
                 (map (\<lambda>(cat, spend). (cat, planned spend - actual spend))
                    (filter (\<lambda>(cat, spend). actual spend < planned spend) entries))))"

definition percent_str :: "builtins \<Rightarrow> rat \<Rightarrow> string" where
  "percent_str B p = toFixed1 B (Fin (p * 100))"

definition recommendCriticalAction ::
  "builtins \<Rightarrow> Variance list \<Rightarrow> BudgetSignals \<Rightarrow> BudgetControlContext
     \<Rightarrow> error + AgentRecommendation" where
  "recommendCriticalAction B criticalOverruns signals context =
     (let details =
            join ''; '' (map (\<lambda>c. category c @ '': '' @ percent_str B (variancePercent c)
                                  @ ''% over budget'') criticalOverruns);
          actions =
            [''URGENT: Review and approve continued spending'']
            @ map (\<lambda>c. category c @ '': planned '' @ numberToString B (planned c)
                        @ '', actual '' @ numberToString B (actual c) @ '' (''
                        @ (if variance c > 0 then ''+'' else '''')
                        @ numberToString B (variance c) @ '')'') criticalOverruns
            @ [''Consider reallocating from other categories'',
               ''Evaluate whether to adjust remaining trip plans'']
      in case findUnderbudgetCategories context of
           Inl e \<Rightarrow> Inl e
         | Inr underbudget \<Rightarrow>
             Inr (createRecommendation ''CRITICAL: Budget overrun detected''
                    (''Critical variance detected: '' @ details @ ''. Total budget at ''
                     @ toFixed1 B (percentSpent signals) @ ''% utilized.'')
                    (BudgetSignals_js signals)
                    (if length underbudget > 0
                     then actions @ ['''', ''Potential reallocation sources:'']
                          @ map (\<lambda>cat. ''- '' @ fst cat @ '': '' @ numberToString B (snd cat)
                                        @ '' available'') underbudget
                     else actions)
                    (Some True) (Some Critical)))"

definition recommendBudgetAdjustment ::
  "builtins \<Rightarrow> Variance list \<Rightarrow> BudgetSignals \<Rightarrow> BudgetControlContext
     \<Rightarrow> error + AgentRecommendation" where
  "recommendBudgetAdjustment B overruns signals context =
     (let details =
            join ''; '' (map (\<lambda>c. category c @ '': '' @ percent_str B (variancePercent c)
                                  @ ''% over'') overruns);
          actions =
            [''Review category spending patterns'']
            @ map (\<lambda>c. category c @ '': variance of '' @ numberToString B (variance c)
                        @ '' ('' @ percent_str B (variancePercent c) @ ''%)'') overruns
      in case findUnderbudgetCategories context of
           Inl e \<Rightarrow> Inl e
         | Inr underbudget \<Rightarrow>
             Inr (createRecommendation ''Budget variance detected - adjustment recommended''
                    (''Category overruns detected: '' @ details
                     @ ''. Reallocation recommended to maintain overall budget.'')
                    (BudgetSignals_js signals)
                    (if length underbudget > 0
                     then actions @ ['''', ''Recommended reallocations:'']
                          @ concat (map (\<lambda>over.
                              case find (\<lambda>u. snd u \<ge> \<bar>variance over\<bar>) underbudget of
                                Some source \<Rightarrow>
                                  [''- Reallocate '' @ numberToString B \<bar>variance over\<bar>
                                     @ '' from '' @ fst source @ '' to '' @ category over]
                              | None \<Rightarrow> []) overruns)
                     else actions
                          @ ['''', ''No underbudget categories available for reallocation'']
                          @ [''Consider reducing upcoming discretionary expenses''])
                    (Some True) (Some High)))"

definition recommendPrepaidUtilization ::
  "builtins \<Rightarrow> PrepaidItem list \<Rightarrow> BudgetSignals \<Rightarrow> AgentRecommendation" where
  "recommendPrepaidUtilization B unused signals =
     (let totalUnused = foldl (\<lambda>sum i. sum + amount i) 0 unused;
          actions =
            [''Total unused prepaid value: '' @ numberToString B totalUnused,
             '''',
             ''Unutilized items:'']
            @ map (\<lambda>i. ''- '' @ item i @ '' ('' @ prepaid_category i @ ''): ''
                        @ numberToString B (amount i)) unused
            @ ['''',
               ''Recommended actions:'',
               ''Review whether these items can still be used'',
               ''Consider booking alternative experiences of equal value'',
               ''Document items that cannot be recovered'']
      in createRecommendation ''Unused prepaid value detected''
           (numberToString B totalUnused @ '' in prepaid expenses not yet utilized. ''
            @ ''Review opportunities to use or reallocate this value.'')
           (BudgetSignals_js signals) actions (Some False) (Some Medium))"

definition buildSummary :: "builtins \<Rightarrow> BudgetSignals \<Rightarrow> Variance list \<Rightarrow> string" where
  "buildSummary B signals variances =
     (let onTrack = filter (\<lambda>v. \<bar>variancePercent v\<bar> \<le> ALERT_THRESHOLD) variances;
          lines =
            [''Total budget: '' @ numberToString B (totalBudget signals) @ '', Spent: ''
               @ numberToString B (totalSpent signals) @ '' (''
               @ toFixed1 B (percentSpent signals) @ ''%)'',
             ''Remaining: '' @ numberToString B (remainingBudget signals)]
            @ (if length onTrack > 0
               then [numberToString B (of_nat (length onTrack)) @ '' categories on track'']
               else [])
      in join ''. '' lines)"

definition BudgetControlAgent_analyze ::
  "builtins \<Rightarrow> world \<Rightarrow> BudgetControlContext \<Rightarrow> (error + AgentRecommendation) \<times> world" where
  "BudgetControlAgent_analyze B w context =
     (case validateContext budget_name (BudgetControlContext_has context)
             [''tripId'', ''userId'', ''date'', ''trip'', ''categorySpend''] of
        Inl e \<Rightarrow> (Inl e, w)
      | Inr _ \<Rightarrow>
         (case BudgetControlAgent_collectSignals context of
            Inl e \<Rightarrow> (Inl e, w)
          | Inr signals \<Rightarrow>
             (case calculateVariances context of
                Inl e \<Rightarrow> (Inl e, w)
              | Inr variances \<Rightarrow>
                 (let w' = log w budget_name ''info'' ''Analyzing budget control''
                             (Data (JObj [(''signals'', BudgetSignals_js signals),
                                          (''variances'', JArr (map Variance_js variances))]));
                      criticalOverruns = findCriticalOverruns variances;
                      overruns = findOverruns variances
                  in if length criticalOverruns > 0
                     then (recommendCriticalAction B criticalOverruns signals context, w')
                     else if length overruns > 0
                     then (recommendBudgetAdjustment B overruns signals context, w')
                     else (case unusedPrepaid context of
                             Some (u # us) \<Rightarrow>
                               (Inr (recommendPrepaidUtilization B (u # us) signals), w')
                           | _ \<Rightarrow>
                               (Inr (createRecommendation
                                       ''Budget on track - no adjustments needed''
                                       (buildSummary B signals variances)
                                       (BudgetSignals_js signals) [] None (Some Low)), w'))))))"

section \<open>transport-logistics-agent.ts\<close>

datatype transport = Flight | Train | PrivateCar | Taxi

text \<open>Of \<^verbatim>\<open>plannedSegments\<close> only the length is read, so a segment is any value.\<close>

record TransportLogisticsContext = AgentContext +
  plannedSegments :: "jsval list option"
  currentLocation :: "string field"
  nextDestination :: "string option"
  departureTime :: "string option"
  arrivalTime :: "string option"
  transportType :: "transport option"
  luggageCount :: "rat option"
  mobilityConsiderations :: "string list option"

record TransportSignals =
  t_currentLocation :: "string field"
  t_nextDestination :: "string option"
  t_transportType :: "transport option"
  t_departureTime :: "string option"
  t_arrivalTime :: "string option"
  t_luggageCount :: "rat option"
  t_mobilityConsiderations :: "string list option"
  t_plannedSegmentsCount :: nat

record BufferAssessment =
  insufficient :: bool
  requiredBuffer :: rat
  currentBuffer :: "rat option"
  details :: string

definition transport_name :: string where
  "transport_name = ''Transport & Logistics Agent''"

definition AIRPORT_BUFFER :: rat where
  "AIRPORT_BUFFER = 120"

definition DOMESTIC_AIRPORT_BUFFER :: rat where
  "DOMESTIC_AIRPORT_BUFFER = 90"

definition COURSE_TRANSFER_BUFFER :: rat where
  "COURSE_TRANSFER_BUFFER = 45"

definition HOTEL_CHECKIN_BUFFER :: rat where
  "HOTEL_CHECKIN_BUFFER = 30"

definition STANDARD_BUFFER :: rat where
  "STANDARD_BUFFER = 15"

definition TransportLogisticsContext_has :: "TransportLogisticsContext \<Rightarrow> string \<Rightarrow> bool" where
  "TransportLogisticsContext_has c k =
     (if k = ''tripId'' then tripId c \<noteq> Absent
      else if k = ''userId'' then userId c \<noteq> Absent
      else if k = ''date'' then date c \<noteq> Absent
      else if k = ''currentLocation'' then currentLocation c \<noteq> Absent
      else False)"

definition transport_str :: "transport \<Rightarrow> string" where
  "transport_str t =
     (case t of Flight \<Rightarrow> ''flight'' | Train \<Rightarrow> ''train'' | PrivateCar \<Rightarrow> ''private_car''
      | Taxi \<Rightarrow> ''taxi'')"

text \<open>\<^verbatim>\<open>`${v}`\<close> for a string that may be \<^verbatim>\<open>undefined\<close> or \<^verbatim>\<open>null\<close>.\<close>

definition opt_text :: "string option \<Rightarrow> string" where
  "opt_text v = (case v of None \<Rightarrow> ''undefined'' | Some s \<Rightarrow> s)"

definition field_text :: "string field \<Rightarrow> string" where
  "field_text v = (case v of Val s \<Rightarrow> s | Null \<Rightarrow> ''null'' | _ \<Rightarrow> ''undefined'')"

text \<open>A string is truthy when it is there and not empty.\<close>

definition truthy_text :: "string option \<Rightarrow> bool" where
  "truthy_text v = (case v of None \<Rightarrow> False | Some s \<Rightarrow> s \<noteq> [])"

definition TransportSignals_js :: "TransportSignals \<Rightarrow> jsval" where
  "TransportSignals_js s =
     JObj [(''currentLocation'', jfield JStr (t_currentLocation s)),
           (''nextDestination'', jopt JStr (t_nextDestination s)),
           (''transportType'', jopt (\<lambda>t. JStr (transport_str t)) (t_transportType s)),
           (''departureTime'', jopt JStr (t_departureTime s)),
           (''arrivalTime'', jopt JStr (t_arrivalTime s)),
           (''luggageCount'', jopt jnum (t_luggageCount s)),
           (''mobilityConsiderations'',
              jopt (\<lambda>ms. JArr (map JStr ms)) (t_mobilityConsiderations s)),
           (''plannedSegmentsCount'', jnum (of_nat (t_plannedSegmentsCount s)))]"

definition TransportLogisticsAgent_collectSignals ::
  "TransportLogisticsContext \<Rightarrow> TransportSignals" where
  "TransportLogisticsAgent_collectSignals context =
     \<lparr>t_currentLocation = currentLocation context,
      t_nextDestination = nextDestination context,
      t_transportType = transportType context,
      t_departureTime = departureTime context,
      t_arrivalTime = arrivalTime context,
      t_luggageCount = luggageCount context,
      t_mobilityConsiderations = mobilityConsiderations context,
      t_plannedSegmentsCount =
        (case plannedSegments context of None \<Rightarrow> 0 | Some segs \<Rightarrow> length segs)\<rparr>"

text \<open>
  \<^verbatim>\<open>context.currentLocation.toLowerCase()\<close> throws a \<^verbatim>\<open>TypeError\<close> when the location is
  \<^verbatim>\<open>undefined\<close> or \<^verbatim>\<open>null\<close>.
\<close>

definition isInternationalFlight :: "TransportLogisticsContext \<Rightarrow> error + bool" where
  "isInternationalFlight context =
     (case deref (currentLocation context) of
        Inl e \<Rightarrow> Inl e
      | Inr loc \<Rightarrow>
         (let international = [''vietnam'', ''japan'', ''korea''];
              current = toLowerCase loc;
              next = (case nextDestination context of None \<Rightarrow> [] | Some d \<Rightarrow> toLowerCase d);
              currentCountry = find (\<lambda>c. str_includes current c) international;
              nextCountry = find (\<lambda>c. str_includes next c) international
          in Inr (currentCountry \<noteq> nextCountry)))"

definition isGolfCourseTransfer :: "TransportLogisticsContext \<Rightarrow> bool" where
  "isGolfCourseTransfer context =
     (case nextDestination context of
        None \<Rightarrow> False
      | Some d \<Rightarrow> str_includes (toLowerCase d) ''golf'' \<or> str_includes (toLowerCase d) ''course'')"

definition assessBuffers ::
  "builtins \<Rightarrow> TransportLogisticsContext \<Rightarrow> error + BufferAssessment" where
  "assessBuffers B context =
     (case transportType context of
        None \<Rightarrow>
          Inr \<lparr>insufficient = False, requiredBuffer = 0, currentBuffer = None,
               details = ''No transport scheduled''\<rparr>
      | Some ttype \<Rightarrow>
          if \<not> truthy_text (departureTime context)
          then Inr \<lparr>insufficient = False, requiredBuffer = 0, currentBuffer = None,
                    details = ''No transport scheduled''\<rparr>
          else
            (case (case ttype of
                     Flight \<Rightarrow>
                       (case isInternationalFlight context of
                          Inl e \<Rightarrow> Inl e
                        | Inr intl \<Rightarrow>
                            Inr (if intl then AIRPORT_BUFFER else DOMESTIC_AIRPORT_BUFFER))
                   | PrivateCar \<Rightarrow>
                       Inr (if isGolfCourseTransfer context then COURSE_TRANSFER_BUFFER
                            else STANDARD_BUFFER)
                   | _ \<Rightarrow> Inr STANDARD_BUFFER) of
               Inl e \<Rightarrow> Inl e
             | Inr required \<Rightarrow>
                 Inr \<lparr>insufficient = False, requiredBuffer = required, currentBuffer = None,
                      details = ''Requires '' @ numberToString B required
                                @ '' minute buffer for '' @ transport_str ttype\<rparr>))"

definition recommendBufferIncrease ::
  "builtins \<Rightarrow> BufferAssessment \<Rightarrow> TransportSignals \<Rightarrow> AgentRecommendation" where
  "recommendBufferIncrease B assessment signals =
     (let actions =
        [''Increase buffer to '' @ numberToString B (requiredBuffer assessment) @ '' minutes'',
         ''Adjust preceding activities if needed'',
         ''Confirm departure time allows for buffer'']
        @ (if truthy_gt (t_luggageCount signals) 2
           then [''Consider porter assistance due to luggage count''] else [])
        @ (case t_mobilityConsiderations signals of
             Some (m # ms) \<Rightarrow> [''Request wheelchair or mobility assistance in advance'']
           | _ \<Rightarrow> [])
      in createRecommendation ''Insufficient transport buffer''
           (details assessment @ ''. Reliability requires adequate buffer time.'')
           (TransportSignals_js signals) actions (Some True) (Some High))"

text \<open>\<^verbatim>\<open>departureTime.split(':')[0]\<close> is the text before the first colon.\<close>

definition isEarlyDeparture :: "builtins \<Rightarrow> string \<Rightarrow> bool" where
  "isEarlyDeparture B dep =
     (case parseInt B (takeWhile (\<lambda>c. c \<noteq> CHR '':'') dep) of
        None \<Rightarrow> False
      | Some hour \<Rightarrow> hour < 7)"

definition identifyRisks :: "builtins \<Rightarrow> TransportLogisticsContext \<Rightarrow> string list" where
  "identifyRisks B context =
     (if truthy_gt (luggageCount context) 3
      then [''Heavy luggage count may slow movement''] else [])
     @ (case mobilityConsiderations context of
          Some (m # ms) \<Rightarrow> [''Mobility considerations: '' @ join '', '' (m # ms)]
        | _ \<Rightarrow> [])
     @ (case plannedSegments context of
          None \<Rightarrow> []
        | Some segs \<Rightarrow>
            if length segs > 2
            then [''Multiple transport segments increase fatigue and delay risk''] else [])
     @ (case departureTime context of
          None \<Rightarrow> []
        | Some dep \<Rightarrow>
            if dep \<noteq> [] \<and> isEarlyDeparture B dep
            then [''Early departure may impact sleep quality''] else [])"

definition recommendRiskMitigation ::
  "builtins \<Rightarrow> string list \<Rightarrow> TransportSignals \<Rightarrow> TransportLogisticsContext
     \<Rightarrow> AgentRecommendation" where
  "recommendRiskMitigation B risks signals context =
     (let actions =
        [''Risk factors identified:'']
        @ map (\<lambda>r. ''- '' @ r) risks
        @ ['''', ''Recommended mitigations:'']
        @ (if list_ex (\<lambda>r. str_includes r ''luggage'') risks
           then [''- Arrange porter or luggage assistance'',
                 ''- Consider shipping some items ahead''] else [])
        @ (if list_ex (\<lambda>r. str_includes r ''mobility'') risks
           then [''- Pre-book wheelchair or mobility assistance'',
                 ''- Request priority boarding'',
                 ''- Allocate extra time for boarding''] else [])
        @ (if list_ex (\<lambda>r. str_includes r ''segments'') risks
           then [''- Build in rest periods between segments'',
                 ''- Consider overnight stay to break up journey''] else [])
        @ (if list_ex (\<lambda>r. str_includes r ''Early departure'') risks
           then [''- Ensure 8-hour sleep window before departure'',
                 ''- Prepare luggage night before'',
                 ''- Arrange express checkout''] else [])
      in createRecommendation ''Transport risk factors detected''
           (numberToString B (of_nat (length risks))
            @ '' risk factors identified for transport on '' @ field_text (date context)
            @ ''. '' @ ''Proactive mitigation recommended.'')
           (TransportSignals_js signals) actions (Some False) (Some Medium))"

text \<open>The arrow between the two places, with the bytes the source file has there.\<close>

definition arrow :: string where
  "arrow = [CHR 0xC3, CHR 0xA2, CHR 0xE2, CHR 0x80, CHR 0xA0, CHR 0xE2, CHR 0x80, CHR 0x99]"

definition confirmTransportPlan ::
  "TransportSignals \<Rightarrow> TransportLogisticsContext \<Rightarrow> AgentRecommendation" where
  "confirmTransportPlan signals context =
     (let actions =
        [''Transport: '' @ field_text (currentLocation context) @ '' '' @ arrow @ '' ''
           @ opt_text (nextDestination context),
         ''Type: '' @ opt_text (map_option transport_str (transportType context))]
        @ (case departureTime context of
             None \<Rightarrow> []
           | Some dep \<Rightarrow> if dep \<noteq> [] then [''Departure: '' @ dep] else [])
        @ (case arrivalTime context of
             None \<Rightarrow> []
           | Some arr \<Rightarrow> if arr \<noteq> [] then [''Arrival: '' @ arr] else [])
        @ ['''', ''Transport plan approved - adequate buffers and low risk'']
      in createRecommendation ''Transport plan confirmed''
           ''All transport logistics reviewed. Plan is reliable and low-stress.''
           (TransportSignals_js signals) actions (Some False) (Some Low))"

definition TransportLogisticsAgent_analyze ::
  "builtins \<Rightarrow> world \<Rightarrow> TransportLogisticsContext
     \<Rightarrow> (error + AgentRecommendation) \<times> world" where
  "TransportLogisticsAgent_analyze B w context =
     (case validateContext transport_name (TransportLogisticsContext_has context)
             [''tripId'', ''userId'', ''date'', ''currentLocation''] of
        Inl e \<Rightarrow> (Inl e, w)
      | Inr _ \<Rightarrow>
         (let signals = TransportLogisticsAgent_collectSignals context;
              w' = log w transport_name ''info'' ''Analyzing transport logistics''
                     (Data (TransportSignals_js signals))
          in if \<not> truthy_text (nextDestination context)
             then (Inr (createRecommendation ''No transport scheduled''
                          ''No transport requirements for this day.''
                          (TransportSignals_js signals) [] None (Some Low)), w')
             else
               (case assessBuffers B context of
                  Inl e \<Rightarrow> (Inl e, w')
                | Inr bufferAssessment \<Rightarrow>
                    if insufficient bufferAssessment
                    then (Inr (recommendBufferIncrease B bufferAssessment signals), w')
                    else
                      (let risks = identifyRisks B context
                       in if length risks > 0
                          then (Inr (recommendRiskMitigation B risks signals context), w')
                          else (Inr (confirmTransportPlan signals context), w')))))"

section \<open>travel-experience-agent.ts\<close>

text \<open>
  Of the traveler feedback the orchestrator reads the two ratings, and of the day's itinerary the
  location, the primary intent and the activities of the morning and of the afternoon
  (\<^verbatim>\<open>itinerary.schedule.morning?.activity\<close>).
\<close>

record TravelerFeedback =
  fb_energyRating :: "rat option"
  fb_sleepQuality :: "rat option"

record DailyItinerary =
  it_location :: string
  primaryIntent :: string
  morning_activity :: "string option"
  afternoon_activity :: "string option"

text \<open>
  The context of the orchestrator. \<^verbatim>\<open>budgetStatus\<close> is never read and is left out. A context
  may carry any further key (\<^verbatim>\<open>[key: string]: any\<close>), and each sub-context starts as a copy
  of the whole context (\<^verbatim>\<open>{ ...context, ... }\<close>): the \<open>extra_\<close> fields are the keys that a
  specialist reads and that the orchestrator does not overwrite.
\<close>

record TravelExperienceContext = AgentContext +
  txa_trip :: "Trip field"
  txa_wellnessProfile :: "WellnessProfile option"
  currentItinerary :: "DailyItinerary field"
  travelerFeedback :: "TravelerFeedback option"
  weather :: "Weather option"
  extra_environmentalStress :: "EnvironmentalStress option"
  extra_recentRounds :: "jsval list option"
  extra_upcomingExpenses :: "jsval list option"
  extra_unusedPrepaid :: "PrepaidItem list option"
  extra_plannedSegments :: "jsval list option"
  extra_nextDestination :: "string option"
  extra_departureTime :: "string option"
  extra_arrivalTime :: "string option"
  extra_transportType :: "transport option"
  extra_luggageCount :: "rat option"
  extra_mobilityConsiderations :: "string list option"

definition txa_name :: string where
  "txa_name = ''Travel Experience Agent (TXA)''"

definition TravelExperienceContext_has :: "TravelExperienceContext \<Rightarrow> string \<Rightarrow> bool" where
  "TravelExperienceContext_has c k =
     (if k = ''tripId'' then tripId c \<noteq> Absent
      else if k = ''userId'' then userId c \<noteq> Absent
      else if k = ''date'' then date c \<noteq> Absent
      else if k = ''trip'' then txa_trip c \<noteq> Absent
      else if k = ''currentItinerary'' then currentItinerary c \<noteq> Absent
      else False)"

definition calculateConsecutiveActiveDays :: "TravelExperienceContext \<Rightarrow> error + rat" where
  "calculateConsecutiveActiveDays context =
     (case deref (currentItinerary context) of
        Inl e \<Rightarrow> Inl e
      | Inr itinerary \<Rightarrow> Inr (if primaryIntent itinerary = ''recovery'' then 0 else 1))"

definition calculateConsecutiveGolfDays :: "TravelExperienceContext \<Rightarrow> rat" where
  "calculateConsecutiveGolfDays context = 0"

definition extractPlannedActivity :: "DailyItinerary \<Rightarrow> PlannedActivity option" where
  "extractPlannedActivity itinerary =
     (let activities = filter truthy_text [morning_activity itinerary, afternoon_activity itinerary];
          hasGolf = (primaryIntent itinerary = ''golf'');
          hasCulture = (primaryIntent itinerary = ''culture'')
      in if length activities = 0 then None
         else Some \<lparr>activity_type = primaryIntent itinerary,
                    physicalLoad = (if hasGolf then LoadHigh
                                    else if hasCulture then LoadMedium else LoadLow),
                    estimatedSteps = Some (if hasGolf then 10000
                                           else if hasCulture then 6000 else 3000)\<rparr>)"

definition buildCategorySpend :: "Trip \<Rightarrow> (string \<times> Spend) list" where
  "buildCategorySpend t =
     map (\<lambda>(cat, p). (cat, \<lparr>planned = (case p of None \<Rightarrow> 0 | Some v \<Rightarrow> v), actual = 0\<rparr>))
       (categories (budget t))"

text \<open>
  A call \<^verbatim>\<open>getXRecommendation(context)\<close> runs up to its \<^verbatim>\<open>await\<close> at once: it builds the
  sub-context and runs the specialist, whose \<^verbatim>\<open>analyze\<close> never suspends. An exception while
  the sub-context is built is caught, logged and thrown again at once (\<open>Threw\<close>); otherwise
  the call awaits the promise of the specialist (\<open>Awaited\<close>), and when that is rejected the
  \<^verbatim>\<open>catch\<close> block runs later, after all four calls have been made.
\<close>

datatype 'a started = Threw error | Awaited "error + 'a"

definition getHealthRecommendation ::
  "builtins \<Rightarrow> world \<Rightarrow> TravelExperienceContext \<Rightarrow> AgentRecommendation started \<times> world" where
  "getHealthRecommendation B w context =
     (case calculateConsecutiveActiveDays context of
        Inl e \<Rightarrow> (Threw e, log w txa_name ''error'' ''Health agent analysis failed'' (Thrown e))
      | Inr days \<Rightarrow>
         (case deref (currentItinerary context) of
            Inl e \<Rightarrow>
              (Threw e, log w txa_name ''error'' ''Health agent analysis failed'' (Thrown e))
          | Inr itinerary \<Rightarrow>
             (let healthContext =
                \<lparr>tripId = tripId context, userId = userId context, date = date context,
                 sleepQuality = Option.bind (travelerFeedback context) fb_sleepQuality,
                 energyRating = Option.bind (travelerFeedback context) fb_energyRating,
                 consecutiveActiveDays = Val days,
                 environmentalStress = extra_environmentalStress context,
                 wellnessProfile = txa_wellnessProfile context,
                 plannedActivity = extractPlannedActivity itinerary\<rparr>;
                  (r, w') = HealthRecoveryAgent_analyze B w healthContext
              in (Awaited r, w'))))"

definition getGolfRecommendation ::
  "builtins \<Rightarrow> world \<Rightarrow> TravelExperienceContext \<Rightarrow> AgentRecommendation started \<times> world" where
  "getGolfRecommendation B w context =
     (case deref (currentItinerary context) of
        Inl e \<Rightarrow> (Threw e, log w txa_name ''error'' ''Golf agent analysis failed'' (Thrown e))
      | Inr itinerary \<Rightarrow>
         (let golfContext =
            \<lparr>tripId = tripId context, userId = userId context, date = date context,
             location = Val (it_location itinerary),
             recentRounds = extra_recentRounds context,
             energyLevel = Option.bind (travelerFeedback context) fb_energyRating,
             weatherForecast = weather context,
             consecutiveGolfDays = calculateConsecutiveGolfDays context,
             availableCourses = Some []\<rparr>;
              (r, w') = GolfOperationsAgent_analyze B w golfContext
          in (Awaited r, w')))"

definition getBudgetRecommendation ::
  "builtins \<Rightarrow> world \<Rightarrow> TravelExperienceContext \<Rightarrow> AgentRecommendation started \<times> world" where
  "getBudgetRecommendation B w context =
     (case deref (txa_trip context) of
        Inl e \<Rightarrow> (Threw e, log w txa_name ''error'' ''Budget agent analysis failed'' (Thrown e))
      | Inr t \<Rightarrow>
         (let budgetContext =
            \<lparr>tripId = tripId context, userId = userId context, date = date context,
             trip = txa_trip context,
             categorySpend = Val (buildCategorySpend t),
             upcomingExpenses = extra_upcomingExpenses context,
             unusedPrepaid = extra_unusedPrepaid context\<rparr>;
              (r, w') = BudgetControlAgent_analyze B w budgetContext
          in (Awaited r, w')))"

definition getTransportRecommendation ::
  "builtins \<Rightarrow> world \<Rightarrow> TravelExperienceContext \<Rightarrow> AgentRecommendation started \<times> world" where
  "getTransportRecommendation B w context =
     (case deref (currentItinerary context) of
        Inl e \<Rightarrow>
          (Threw e, log w txa_name ''error'' ''Transport agent analysis failed'' (Thrown e))
      | Inr itinerary \<Rightarrow>
         (let transportContext =
            \<lparr>tripId = tripId context, userId = userId context, date = date context,
             plannedSegments = extra_plannedSegments context,
             currentLocation = Val (it_location itinerary),
             nextDestination = extra_nextDestination context,
             departureTime = extra_departureTime context,
             arrivalTime = extra_arrivalTime context,
             transportType = extra_transportType context,
             luggageCount = extra_luggageCount context,
             mobilityConsiderations = extra_mobilityConsiderations context\<rparr>;
              (r, w') = TransportLogisticsAgent_analyze B w transportContext
          in (Awaited r, w')))"

text \<open>
  The \<^verbatim>\<open>catch\<close> block of a call whose awaited promise was rejected: it logs the error and
  throws it again.
\<close>

definition catch_log :: "world \<Rightarrow> string \<Rightarrow> 'a started \<Rightarrow> world" where
  "catch_log w message p =
     (case p of
        Awaited (Inl e) \<Rightarrow> log w txa_name ''error'' message (Thrown e)
      | _ \<Rightarrow> w)"

text \<open>
  \<^verbatim>\<open>Promise.all\<close> over the four calls: it is rejected with the error of the first promise
  found rejected, and fulfilled with the four values when no promise is rejected. A call that
  threw at once is found rejected before a call whose awaited promise was rejected; among the
  calls of one kind the order of the array decides.
\<close>

definition outcome :: "'a started \<Rightarrow> error + 'a" where
  "outcome p = (case p of Threw e \<Rightarrow> Inl e | Awaited r \<Rightarrow> r)"

fun first_thrown :: "'a started list \<Rightarrow> error option" where
  "first_thrown [] = None"
| "first_thrown (Threw e # ps) = Some e"
| "first_thrown (Awaited r # ps) = first_thrown ps"

definition Promise_all ::
  "'a started \<Rightarrow> 'a started \<Rightarrow> 'a started \<Rightarrow> 'a started \<Rightarrow> error + ('a \<times> 'a \<times> 'a \<times> 'a)" where
  "Promise_all p1 p2 p3 p4 =
     (case first_thrown [p1, p2, p3, p4] of
        Some e \<Rightarrow> Inl e
      | None \<Rightarrow>
         (case outcome p1 of Inl e \<Rightarrow> Inl e | Inr v1 \<Rightarrow>
           (case outcome p2 of Inl e \<Rightarrow> Inl e | Inr v2 \<Rightarrow>
             (case outcome p3 of Inl e \<Rightarrow> Inl e | Inr v3 \<Rightarrow>
               (case outcome p4 of Inl e \<Rightarrow> Inl e | Inr v4 \<Rightarrow> Inr (v1, v2, v3, v4))))))"

definition buildNominalSummary :: "builtins \<Rightarrow> TravelExperienceContext \<Rightarrow> error + string" where
  "buildNominalSummary B context =
     (case deref (currentItinerary context) of
        Inl e \<Rightarrow> Inl e
      | Inr itinerary \<Rightarrow>
         (let energy = Option.bind (travelerFeedback context) fb_energyRating;
              parts =
                [''Day proceeding as planned in '' @ it_location itinerary @ ''.'',
                 ''Primary focus: '' @ primaryIntent itinerary @ ''.'']
                @ (if truthy_num energy
                   then [''Energy level: '' @ opt_str B energy @ ''/5.''] else [])
                @ [''All systems green.'']
          in Inr (join '' '' parts)))"

definition applyCoordinationRules ::
  "builtins \<Rightarrow> AgentRecommendation \<Rightarrow> AgentRecommendation \<Rightarrow> AgentRecommendation
     \<Rightarrow> AgentRecommendation \<Rightarrow> TravelExperienceContext \<Rightarrow> error + AgentRecommendation" where
  "applyCoordinationRules B healthRec golfRec budgetRec transportRec context =
     (if priority healthRec = Critical \<or> priority healthRec = High
      then Inr (createRecommendation ''Health priority override''
                  (''Health & recovery agent recommends intervention. ''
                   @ ''Health rationale: '' @ rationale healthRec)
                  (JObj [(''healthRecommendation'', recommendation_js healthRec),
                         (''otherRecommendations'',
                            JObj [(''golf'', recommendation_js golfRec),
                                  (''budget'', recommendation_js budgetRec),
                                  (''transport'', recommendation_js transportRec)])])
                  (outputActions healthRec
                   @ ['''', ''Other agent recommendations deferred to prioritize well-being.''])
                  (Some (approvalRequired healthRec)) (Some (priority healthRec)))
      else if priority transportRec = Critical \<or> priority transportRec = High
      then Inr (createRecommendation ''Logistics priority override''
                  (''Transport logistics require adjustment. ''
                   @ ''Transport rationale: '' @ rationale transportRec)
                  (JObj [(''transportRecommendation'', recommendation_js transportRec),
                         (''healthRecommendation'', recommendation_js healthRec)])
                  (outputActions transportRec
                   @ ['''', ''Schedule adjusted to ensure reliable transport.''])
                  (Some (approvalRequired transportRec)) (Some (priority transportRec)))
      else if priority budgetRec = Critical
      then Inr (createRecommendation ''Budget control intervention''
                  (''Critical budget variance detected. ''
                   @ ''Budget rationale: '' @ rationale budgetRec)
                  (JObj [(''budgetRecommendation'', recommendation_js budgetRec),
                         (''healthStatus'', recommendation_js healthRec)])
                  (outputActions budgetRec
                   @ ['''', ''Spending adjustments required before proceeding.''])
                  (Some True) (Some Critical))
      else if approvalRequired golfRec
      then Inr (createRecommendation ''Golf activity adjustment recommended''
                  (rationale golfRec)
                  (JObj [(''golfRecommendation'', recommendation_js golfRec),
                         (''healthStatus'', recommendation_js healthRec)])
                  (outputActions golfRec)
                  (Some True) (Some (priority golfRec)))
      else (case buildNominalSummary B context of
              Inl e \<Rightarrow> Inl e
            | Inr summary \<Rightarrow>
                Inr (createRecommendation ''Proceed with planned itinerary'' summary
                       (JObj [(''allRecommendations'',
                                 JObj [(''health'', recommendation_js healthRec),
                                       (''golf'', recommendation_js golfRec),
                                       (''budget'', recommendation_js budgetRec),
                                       (''transport'', recommendation_js transportRec)])])
                       [''All agent assessments favorable'',
                        ''Health: '' @ decision healthRec,
                        ''Transport: '' @ decision transportRec,
                        ''Budget: '' @ decision budgetRec,
                        ''Golf: '' @ decision golfRec]
                       (Some False) (Some Low))))"

definition TravelExperienceAgent_analyze ::
  "builtins \<Rightarrow> world \<Rightarrow> TravelExperienceContext \<Rightarrow> (error + AgentRecommendation) \<times> world" where
  "TravelExperienceAgent_analyze B w context =
     (case validateContext txa_name (TravelExperienceContext_has context)
             [''tripId'', ''userId'', ''date'', ''trip'', ''currentItinerary''] of
        Inl e \<Rightarrow> (Inl e, w)
      | Inr _ \<Rightarrow>
         (case deref (currentItinerary context) of
            Inl e \<Rightarrow> (Inl e, w)
          | Inr itinerary \<Rightarrow>
             (let w0 = log w txa_name ''info'' ''TXA beginning daily analysis''
                         (Data (JObj [(''date'', jfield JStr (date context)),
                                      (''location'', JStr (it_location itinerary)),
                                      (''primaryIntent'', JStr (primaryIntent itinerary))]));
                  (h, w1) = getHealthRecommendation B w0 context;
                  (g, w2) = getGolfRecommendation B w1 context;
                  (b, w3) = getBudgetRecommendation B w2 context;
                  (t, w4) = getTransportRecommendation B w3 context;
                  w5 = catch_log w4 ''Health agent analysis failed'' h;
                  w6 = catch_log w5 ''Golf agent analysis failed'' g;
                  w7 = catch_log w6 ''Budget agent analysis failed'' b;
                  w8 = catch_log w7 ''Transport agent analysis failed'' t
              in case Promise_all h g b t of
                   Inl e \<Rightarrow> (Inl e, w8)
                 | Inr (healthRec, golfRec, budgetRec, transportRec) \<Rightarrow>
                    (case applyCoordinationRules B healthRec golfRec budgetRec transportRec
                            context of
                       Inl e \<Rightarrow> (Inl e, w8)
                     | Inr finalDecision \<Rightarrow>
                         (Inr finalDecision,
                          log w8 txa_name ''info'' ''TXA final decision''
                            (Data (JObj [(''decision'', JStr (decision finalDecision)),
                                         (''priority'',
                                            priority_js (priority finalDecision))])))))))"

section \<open>Concrete inputs\<close>

text \<open>
  The inputs at which the theorems below are evaluated. The theorems hold for every choice of
  the built-ins and of the world; \<open>sample_builtins\<close> and \<open>initial_world\<close> are one choice.
\<close>

definition sample_builtins :: builtins where
  "sample_builtins =
     \<lparr>numberToString = (\<lambda>x. ''#''), toFixed1 = (\<lambda>x. ''#.#''), parseInt = (\<lambda>s. None)\<rparr>"

definition initial_world :: world where
  "initial_world = \<lparr>clock = (\<lambda>n. ''2026-02-20T08:00:00.000Z''), ticks = 0, console = []\<rparr>"

text \<open>Scenario 1 of the specification: poor sleep after four active days.\<close>

definition scenario1_context :: HealthRecoveryContext where
  "scenario1_context =
     \<lparr>tripId = Val ''trip_123'', userId = Val ''user_123'', date = Val ''2026-02-20'',
      sleepQuality = Some 2, energyRating = Some 3, consecutiveActiveDays = Val 4,
      environmentalStress = None, wellnessProfile = None, plannedActivity = None\<rparr>"

text \<open>The same context with the required day count present but \<^verbatim>\<open>undefined\<close>.\<close>

definition undefined_days_context :: HealthRecoveryContext where
  "undefined_days_context =
     \<lparr>tripId = Val ''trip_123'', userId = Val ''user_123'', date = Val ''2026-02-20'',
      sleepQuality = Some 4, energyRating = Some 4, consecutiveActiveDays = Undef,
      environmentalStress = None, wellnessProfile = None, plannedActivity = None\<rparr>"

text \<open>And with neither the key of the day count nor the one of the user.\<close>

definition missing_keys_context :: HealthRecoveryContext where
  "missing_keys_context =
     undefined_days_context\<lparr>userId := Absent, consecutiveActiveDays := Absent\<rparr>"

text \<open>
  Scenario 2 of the specification, with the courses of the repository's golf-planning example:
  34 degrees and 78 percent humidity in Da Nang.
\<close>

definition example_courses :: "Course list" where
  "example_courses =
     [\<lparr>name = ''Montgomerie Links Vietnam'', travelTime = 20, difficulty = Moderate,
       climate = Hot\<rparr>,
      \<lparr>name = ''Ba Na Hills Golf Club'', travelTime = 60, difficulty = Challenging,
       climate = Mountain\<rparr>,
      \<lparr>name = ''Laguna Lang Co Golf Club'', travelTime = 45, difficulty = Moderate,
       climate = Hot\<rparr>]"

definition scenario2_context :: GolfOperationsContext where
  "scenario2_context =
     \<lparr>tripId = Val ''trip_123'', userId = Val ''user_demo_001'', date = Val ''2026-02-21'',
      location = Val ''Da Nang, Vietnam'', recentRounds = None, energyLevel = Some 4,
      weatherForecast =
        Some \<lparr>condition = ''sunny'', temperature = 34, humidity = 78, rainfall = Some 0\<rparr>,
      consecutiveGolfDays = 0, availableCourses = Some example_courses\<rparr>"

text \<open>The same day at 36 degrees, and the same request made in Osaka.\<close>

definition hot_day_context :: GolfOperationsContext where
  "hot_day_context =
     scenario2_context\<lparr>weatherForecast :=
        Some \<lparr>condition = ''sunny'', temperature = 36, humidity = 78, rainfall = Some 0\<rparr>\<rparr>"


text \<open>
  Budget contexts: golf planned at 5000 with 5500 and with 6000 spent (exactly 10 and 20
  percent over), and a category whose planned amount is negative.
\<close>

definition example_trip :: Trip where
  "example_trip =
     \<lparr>budget = \<lparr>total = 50000, spent = 12000,
                categories = [(''flights'', Some 12000), (''hotels'', Some 18000),
                              (''golf'', Some 5000), (''food'', Some 8000),
                              (''transport'', Some 4000), (''guides'', Some 2000),
                              (''wellness'', Some 1000)]\<rparr>\<rparr>"

definition budget_context :: "(string \<times> Spend) list \<Rightarrow> BudgetControlContext" where
  "budget_context entries =
     \<lparr>tripId = Val ''trip_123'', userId = Val ''user_123'', date = Val ''2026-02-20'',
      trip = Val example_trip, categorySpend = Val entries,
      upcomingExpenses = None, unusedPrepaid = None\<rparr>"

definition boundary_entries :: "(string \<times> Spend) list" where
  "boundary_entries =
     [(''golf'', \<lparr>planned = 5000, actual = 5500\<rparr>),
      (''food'', \<lparr>planned = 5000, actual = 6000\<rparr>)]"


text \<open>A transfer to the airport by plane, with a departure time and no risk factor.\<close>

definition flight_context :: TransportLogisticsContext where
  "flight_context =
     \<lparr>tripId = Val ''trip_123'', userId = Val ''user_123'', date = Val ''2026-02-27'',
      plannedSegments = None, currentLocation = Val ''Da Nang, Vietnam'',
      nextDestination = Some ''Osaka, Japan'', departureTime = Some ''09:00'',
      arrivalTime = Some ''15:30'', transportType = Some Flight, luggageCount = Some 2,
      mobilityConsiderations = None\<rparr>"

text \<open>
  A day of the orchestrator: golf in Da Nang after a night of poor sleep. In the second context
  the key \<^verbatim>\<open>trip\<close> is there and holds \<^verbatim>\<open>undefined\<close>.
\<close>

definition golf_day_context :: TravelExperienceContext where
  "golf_day_context =
     \<lparr>tripId = Val ''trip_vietnam_japan_001'', userId = Val ''user_demo_001'',
      date = Val ''2026-02-20'',
      txa_trip = Val example_trip,
      txa_wellnessProfile = Some \<lparr>stepsTarget = 7500, mobilityLevel = ''full''\<rparr>,
      currentItinerary =
        Val \<lparr>it_location = ''Da Nang, Vietnam'', primaryIntent = ''golf'',
             morning_activity = Some ''Golf at Montgomerie Links Vietnam'',
             afternoon_activity = Some ''Spa treatment at Four Seasons''\<rparr>,
      travelerFeedback = Some \<lparr>fb_energyRating = Some 3, fb_sleepQuality = Some 2\<rparr>,
      weather = Some \<lparr>condition = ''partly cloudy'', temperature = 34, humidity = 78,
                      rainfall = None\<rparr>,
      extra_environmentalStress = None, extra_recentRounds = None,
      extra_upcomingExpenses = None, extra_unusedPrepaid = None,
      extra_plannedSegments = None, extra_nextDestination = None,
      extra_departureTime = None, extra_arrivalTime = None, extra_transportType = None,
      extra_luggageCount = None, extra_mobilityConsiderations = None\<rparr>"


section \<open>Validation\<close>

lemma validateContext_Inr:
  "validateContext a has req = Inr () \<longleftrightarrow> list_all has req"
  by (induction req) (auto simp: validateContext_def Let_def)

lemma validateContext_cases:
  "validateContext a has req =
     (if list_all has req then Inr ()
      else Inl (Error (a @ '' missing required context fields: ''
                         @ join '', '' (filter (\<lambda>f. \<not> has f) req))))"
  by (auto simp: validateContext_def Let_def list_all_iff filter_empty_conv)

lemma health_validate:
  "validateContext health_name (HealthRecoveryContext_has c)
       [''tripId'', ''userId'', ''date'', ''consecutiveActiveDays''] = Inr ()
     \<longleftrightarrow> tripId c \<noteq> Absent \<and> userId c \<noteq> Absent \<and> date c \<noteq> Absent
           \<and> consecutiveActiveDays c \<noteq> Absent"
  by (simp add: validateContext_Inr HealthRecoveryContext_has_def)

lemma golf_validate:
  "validateContext golf_name (GolfOperationsContext_has c)
       [''tripId'', ''userId'', ''date'', ''location''] = Inr ()
     \<longleftrightarrow> tripId c \<noteq> Absent \<and> userId c \<noteq> Absent \<and> date c \<noteq> Absent
           \<and> location c \<noteq> Absent"
  by (simp add: validateContext_Inr GolfOperationsContext_has_def)

lemma budget_validate:
  "validateContext budget_name (BudgetControlContext_has c)
       [''tripId'', ''userId'', ''date'', ''trip'', ''categorySpend''] = Inr ()
     \<longleftrightarrow> tripId c \<noteq> Absent \<and> userId c \<noteq> Absent \<and> date c \<noteq> Absent
           \<and> trip c \<noteq> Absent \<and> categorySpend c \<noteq> Absent"
  by (simp add: validateContext_Inr BudgetControlContext_has_def)

lemma transport_validate:
  "validateContext transport_name (TransportLogisticsContext_has c)
       [''tripId'', ''userId'', ''date'', ''currentLocation''] = Inr ()
     \<longleftrightarrow> tripId c \<noteq> Absent \<and> userId c \<noteq> Absent \<and> date c \<noteq> Absent
           \<and> currentLocation c \<noteq> Absent"
  by (simp add: validateContext_Inr TransportLogisticsContext_has_def)

lemma txa_validate:
  "validateContext txa_name (TravelExperienceContext_has c)
       [''tripId'', ''userId'', ''date'', ''trip'', ''currentItinerary''] = Inr ()
     \<longleftrightarrow> tripId c \<noteq> Absent \<and> userId c \<noteq> Absent \<and> date c \<noteq> Absent
           \<and> txa_trip c \<noteq> Absent \<and> currentItinerary c \<noteq> Absent"
  by (simp add: validateContext_Inr TravelExperienceContext_has_def)

lemma validateContext_Inl:
  "validateContext a has req = Inl e \<Longrightarrow>
     e = Error (a @ '' missing required context fields: ''
                  @ join '', '' (filter (\<lambda>f. \<not> has f) req))
     \<and> \<not> list_all has req"
  by (simp add: validateContext_cases split: if_splits)

section \<open>The recommendation does not depend on the world\<close>

lemma health_world:
  "fst (HealthRecoveryAgent_analyze B w c) = fst (HealthRecoveryAgent_analyze B w' c)"
  by (simp add: HealthRecoveryAgent_analyze_def Let_def split: sum.split)

lemma golf_world:
  "fst (GolfOperationsAgent_analyze B w c) = fst (GolfOperationsAgent_analyze B w' c)"
  by (simp add: GolfOperationsAgent_analyze_def Let_def split: sum.split field.split)

lemma budget_world:
  "fst (BudgetControlAgent_analyze B w c) = fst (BudgetControlAgent_analyze B w' c)"
  by (simp add: BudgetControlAgent_analyze_def Let_def
           split: sum.split option.split list.split)

lemma transport_world:
  "fst (TransportLogisticsAgent_analyze B w c) = fst (TransportLogisticsAgent_analyze B w' c)"
  by (simp add: TransportLogisticsAgent_analyze_def Let_def split: sum.split)

lemma getHealth_world:
  "fst (getHealthRecommendation B w c) = fst (getHealthRecommendation B w' c)"
  using health_world
  by (simp add: getHealthRecommendation_def Let_def split_beta split: sum.split)

lemma getGolf_world:
  "fst (getGolfRecommendation B w c) = fst (getGolfRecommendation B w' c)"
  using golf_world
  by (simp add: getGolfRecommendation_def Let_def split_beta split: sum.split)

lemma getBudget_world:
  "fst (getBudgetRecommendation B w c) = fst (getBudgetRecommendation B w' c)"
  using budget_world
  by (simp add: getBudgetRecommendation_def Let_def split_beta split: sum.split)

lemma getTransport_world:
  "fst (getTransportRecommendation B w c) = fst (getTransportRecommendation B w' c)"
  using transport_world
  by (simp add: getTransportRecommendation_def Let_def split_beta split: sum.split)

text \<open>
  The result of the orchestrator in terms of the four calls, each made in a world of its own
  choice: the worlds only carry the log.
\<close>

lemma txa_result:
  "fst (TravelExperienceAgent_analyze B w c) =
     (case validateContext txa_name (TravelExperienceContext_has c)
             [''tripId'', ''userId'', ''date'', ''trip'', ''currentItinerary''] of
        Inl e \<Rightarrow> Inl e
      | Inr _ \<Rightarrow>
         (case deref (currentItinerary c) of
            Inl e \<Rightarrow> Inl e
          | Inr itinerary \<Rightarrow>
             (case Promise_all (fst (getHealthRecommendation B wh c))
                     (fst (getGolfRecommendation B wg c))
                     (fst (getBudgetRecommendation B wb c))
                     (fst (getTransportRecommendation B wt c)) of
                Inl e \<Rightarrow> Inl e
              | Inr (healthRec, golfRec, budgetRec, transportRec) \<Rightarrow>
                  applyCoordinationRules B healthRec golfRec budgetRec transportRec c)))"
proof -
  obtain h where h: "\<And>w. fst (getHealthRecommendation B w c) = h"
    using getHealth_world by blast
  obtain g where g: "\<And>w. fst (getGolfRecommendation B w c) = g"
    using getGolf_world by blast
  obtain b where b: "\<And>w. fst (getBudgetRecommendation B w c) = b"
    using getBudget_world by blast
  obtain t where t: "\<And>w. fst (getTransportRecommendation B w c) = t"
    using getTransport_world by blast
  show ?thesis
    by (simp add: TravelExperienceAgent_analyze_def Let_def split_beta h g b t
             split: sum.split)
qed

lemma txa_world:
  "fst (TravelExperienceAgent_analyze B w c) = fst (TravelExperienceAgent_analyze B w' c)"
  by (simp add: txa_result [of B _ c w w w w])

section \<open>Health and recovery: the full rest day\<close>

lemma recommendFullRestDay_fields:
  "decision (recommendFullRestDay B s) = ''Cancel all planned activities - full rest day required''"
  "priority (recommendFullRestDay B s) = Critical"
  "approvalRequired (recommendFullRestDay B s)"
  "outputActions (recommendFullRestDay B s) =
     [''Cancel all scheduled activities for the day'',
      ''Schedule spa or massage treatment'',
      ''Allow sleeping in without alarm'',
      ''Light pool or lounge time only'',
      ''Early dinner and bedtime'']"
  by (simp_all add: recommendFullRestDay_def createRecommendation_def Let_def)

text \<open>
  Claim C8. A context that passes validation, whose sleep quality and energy rating lie between
  1 and 5 when they are there, and where the sleep quality is below 3, or the energy rating is
  below 2, or there are at least 5 consecutive active days, gets the full rest day from the
  Health agent: all activities cancelled, priority critical, approval required.
\<close>

theorem health_full_rest_day:
  assumes "tripId c \<noteq> Absent" and "userId c \<noteq> Absent" and "date c \<noteq> Absent"
      and "consecutiveActiveDays c \<noteq> Absent"
      and "\<forall>q. sleepQuality c = Some q \<longrightarrow> 1 \<le> q \<and> q \<le> 5"
      and "\<forall>e. energyRating c = Some e \<longrightarrow> 1 \<le> e \<and> e \<le> 5"
      and "(\<exists>q. sleepQuality c = Some q \<and> q < 3)
           \<or> (\<exists>e. energyRating c = Some e \<and> e < 2)
           \<or> (\<exists>n. consecutiveActiveDays c = Val n \<and> n \<ge> 5)"
  shows "\<exists>r. fst (HealthRecoveryAgent_analyze B w c) = Inr r
            \<and> r = recommendFullRestDay B (HealthRecoveryAgent_collectSignals c)
            \<and> decision r = ''Cancel all planned activities - full rest day required''
            \<and> priority r = Critical \<and> approvalRequired r = True
            \<and> outputActions r =
                 [''Cancel all scheduled activities for the day'',
                  ''Schedule spa or massage treatment'',
                  ''Allow sleeping in without alarm'',
                  ''Light pool or lounge time only'',
                  ''Early dinner and bedtime'']"
proof -
  have v: "validateContext health_name (HealthRecoveryContext_has c)
             [''tripId'', ''userId'', ''date'', ''consecutiveActiveDays''] = Inr ()"
    using assms(1-4) by (simp add: health_validate)
  have r: "requiresFullRestDay (HealthRecoveryAgent_collectSignals c)"
    using assms(5-7)
    by (auto simp: requiresFullRestDay_def HealthRecoveryAgent_collectSignals_def
        truthy_lt_def field_ge_def)
  have "fst (HealthRecoveryAgent_analyze B w c)
          = Inr (recommendFullRestDay B (HealthRecoveryAgent_collectSignals c))"
    using v r by (simp add: HealthRecoveryAgent_analyze_def Let_def)
  then show ?thesis by (simp add: recommendFullRestDay_fields)
qed

text \<open>Scenario 1: sleep quality 2, energy rating 3, four consecutive active days.\<close>

theorem health_full_rest_day_scenario1:
  "sleepQuality scenario1_context = Some 2 \<and> energyRating scenario1_context = Some 3
   \<and> consecutiveActiveDays scenario1_context = Val 4
   \<and> (\<exists>r. fst (HealthRecoveryAgent_analyze sample_builtins initial_world scenario1_context)
               = Inr r
          \<and> decision r = ''Cancel all planned activities - full rest day required''
          \<and> priority r = Critical \<and> approvalRequired r = True)"
proof -
  have "\<exists>r. fst (HealthRecoveryAgent_analyze sample_builtins initial_world scenario1_context)
               = Inr r
            \<and> r = recommendFullRestDay sample_builtins
                    (HealthRecoveryAgent_collectSignals scenario1_context)
            \<and> decision r = ''Cancel all planned activities - full rest day required''
            \<and> priority r = Critical \<and> approvalRequired r = True
            \<and> outputActions r =
                 [''Cancel all scheduled activities for the day'',
                  ''Schedule spa or massage treatment'',
                  ''Allow sleeping in without alarm'',
                  ''Light pool or lounge time only'',
                  ''Early dinner and bedtime'']"
    by (rule health_full_rest_day) (simp_all add: scenario1_context_def)
  then show ?thesis by (auto simp: scenario1_context_def)
qed

section \<open>Determinism\<close>

text \<open>
  Claim C2. The recommendation (or the error) that an agent returns for a context is the same
  in every world: it depends neither on the clock, which only the log reads, nor on what was
  logged before. In particular a second call, made in the world that the first call left,
  returns what the first call returned. This holds for the four specialists and for the
  orchestrator.
\<close>

theorem analyze_deterministic:
  "fst (HealthRecoveryAgent_analyze B w hc)
     = fst (HealthRecoveryAgent_analyze B (snd (HealthRecoveryAgent_analyze B w hc)) hc)
   \<and> fst (HealthRecoveryAgent_analyze B w hc) = fst (HealthRecoveryAgent_analyze B w' hc)
   \<and> fst (GolfOperationsAgent_analyze B w gc)
     = fst (GolfOperationsAgent_analyze B (snd (GolfOperationsAgent_analyze B w gc)) gc)
   \<and> fst (GolfOperationsAgent_analyze B w gc) = fst (GolfOperationsAgent_analyze B w' gc)
   \<and> fst (BudgetControlAgent_analyze B w bc)
     = fst (BudgetControlAgent_analyze B (snd (BudgetControlAgent_analyze B w bc)) bc)
   \<and> fst (BudgetControlAgent_analyze B w bc) = fst (BudgetControlAgent_analyze B w' bc)
   \<and> fst (TransportLogisticsAgent_analyze B w tc)
     = fst (TransportLogisticsAgent_analyze B
              (snd (TransportLogisticsAgent_analyze B w tc)) tc)
   \<and> fst (TransportLogisticsAgent_analyze B w tc)
     = fst (TransportLogisticsAgent_analyze B w' tc)
   \<and> fst (TravelExperienceAgent_analyze B w c)
     = fst (TravelExperienceAgent_analyze B (snd (TravelExperienceAgent_analyze B w c)) c)
   \<and> fst (TravelExperienceAgent_analyze B w c) = fst (TravelExperienceAgent_analyze B w' c)"
  by (intro conjI health_world golf_world budget_world transport_world txa_world)

text \<open>The golf day of the orchestrator, analysed twice in a row.\<close>

theorem analyze_deterministic_golf_day:
  "fst (TravelExperienceAgent_analyze sample_builtins initial_world golf_day_context)
     = fst (TravelExperienceAgent_analyze sample_builtins
              (snd (TravelExperienceAgent_analyze sample_builtins initial_world
                      golf_day_context)) golf_day_context)
   \<and> console (snd (TravelExperienceAgent_analyze sample_builtins initial_world
                      golf_day_context)) \<noteq> console initial_world"
proof -
  have "console (snd (TravelExperienceAgent_analyze sample_builtins initial_world
                        golf_day_context)) \<noteq> console initial_world"
    by code_simp
  then show ?thesis
    using analyze_deterministic [of sample_builtins initial_world scenario1_context
        initial_world scenario2_context "budget_context boundary_entries" flight_context
        golf_day_context]
    by blast
qed

section \<open>Priority and approval\<close>

lemma health_branches:
  "priority (recommendFullRestDay B s) = Critical \<and> approvalRequired (recommendFullRestDay B s)"
  "priority (recommendActivityModeration B s c) = High
   \<and> approvalRequired (recommendActivityModeration B s c)"
  "priority (recommendWellnessActivity s) = Medium
   \<and> \<not> approvalRequired (recommendWellnessActivity s)"
  by (simp_all add: recommendFullRestDay_def recommendActivityModeration_def
        recommendWellnessActivity_def createRecommendation_def Let_def)

lemma golf_branches:
  "priority (recommendSkipGolf B s) = High \<and> approvalRequired (recommendSkipGolf B s)"
  "recommendCourseSubstitution B s c = Inr r \<Longrightarrow> priority r = High \<and> approvalRequired r"
  "priority (recommendOptimalCourse B s c) \<in> {Low, Medium}
   \<and> \<not> approvalRequired (recommendOptimalCourse B s c)"
  by (auto simp: recommendSkipGolf_def recommendCourseSubstitution_def
        recommendOptimalCourse_def createRecommendation_def Let_def
        split: option.splits sum.splits prod.splits if_splits list.splits)

lemma optimal_course_priority:
  "priority (recommendOptimalCourse B s c) \<noteq> High"
  "priority (recommendOptimalCourse B s c) \<noteq> Critical"
  using golf_branches(3) [of B s c] by auto

lemma budget_branches:
  "recommendCriticalAction B vs s c = Inr r \<Longrightarrow> priority r = Critical \<and> approvalRequired r"
  "recommendBudgetAdjustment B vs s c = Inr r \<Longrightarrow> priority r = High \<and> approvalRequired r"
  "priority (recommendPrepaidUtilization B us s) = Medium
   \<and> \<not> approvalRequired (recommendPrepaidUtilization B us s)"
  by (auto simp: recommendCriticalAction_def recommendBudgetAdjustment_def
        recommendPrepaidUtilization_def createRecommendation_def Let_def
        split: sum.splits)

lemma transport_branches:
  "priority (recommendBufferIncrease B a s) = High \<and> approvalRequired (recommendBufferIncrease B a s)"
  "priority (recommendRiskMitigation B rs s c) = Medium
   \<and> \<not> approvalRequired (recommendRiskMitigation B rs s c)"
  "priority (confirmTransportPlan s c) = Low \<and> \<not> approvalRequired (confirmTransportPlan s c)"
  by (simp_all add: recommendBufferIncrease_def recommendRiskMitigation_def
        confirmTransportPlan_def createRecommendation_def Let_def)

lemma priority_cases: "p \<in> {Low, Medium, High, Critical}"
  by (cases p) simp_all

lemma health_invariant:
  assumes "fst (HealthRecoveryAgent_analyze B w c) = Inr r"
  shows "priority r \<in> {High, Critical} \<longrightarrow> approvalRequired r"
  using assms unfolding HealthRecoveryAgent_analyze_def Let_def
  by (auto simp: health_branches createRecommendation_def split: sum.splits if_splits)

lemma golf_invariant:
  assumes "fst (GolfOperationsAgent_analyze B w c) = Inr r"
  shows "priority r \<in> {High, Critical} \<longrightarrow> approvalRequired r"
  using assms unfolding GolfOperationsAgent_analyze_def Let_def
  by (auto simp: golf_branches(1,3) optimal_course_priority createRecommendation_def
        dest: golf_branches(2)
        split: sum.splits if_splits field.splits)

lemma budget_invariant:
  assumes "fst (BudgetControlAgent_analyze B w c) = Inr r"
  shows "priority r \<in> {High, Critical} \<longrightarrow> approvalRequired r"
  using assms unfolding BudgetControlAgent_analyze_def Let_def
  by (auto simp: budget_branches(3) createRecommendation_def dest: budget_branches(1,2)
        split: sum.splits if_splits option.splits list.splits)

lemma transport_invariant:
  assumes "fst (TransportLogisticsAgent_analyze B w c) = Inr r"
  shows "priority r \<in> {High, Critical} \<longrightarrow> approvalRequired r"
  using assms unfolding TransportLogisticsAgent_analyze_def Let_def
  by (auto simp: transport_branches createRecommendation_def split: sum.splits if_splits)

text \<open>
  Claim C3. Every recommendation of a specialist has one of the four priorities, and needs
  approval whenever its priority is high or critical. This holds of whatever \<^verbatim>\<open>analyze\<close>
  returns and of each branch by itself: the full rest day is critical with approval; activity
  moderation, skipping golf, a course substitution, a budget adjustment and a buffer increase
  are high with approval; a critical overrun is critical with approval; every other branch is
  medium or low without approval.
\<close>

theorem priority_approval_invariant:
  "(\<forall>r. fst (HealthRecoveryAgent_analyze B w hc) = Inr r \<longrightarrow>
        priority r \<in> {Low, Medium, High, Critical}
        \<and> (priority r \<in> {High, Critical} \<longrightarrow> approvalRequired r))
   \<and> (\<forall>r. fst (GolfOperationsAgent_analyze B w gc) = Inr r \<longrightarrow>
        priority r \<in> {Low, Medium, High, Critical}
        \<and> (priority r \<in> {High, Critical} \<longrightarrow> approvalRequired r))
   \<and> (\<forall>r. fst (BudgetControlAgent_analyze B w bc) = Inr r \<longrightarrow>
        priority r \<in> {Low, Medium, High, Critical}
        \<and> (priority r \<in> {High, Critical} \<longrightarrow> approvalRequired r))
   \<and> (\<forall>r. fst (TransportLogisticsAgent_analyze B w tc) = Inr r \<longrightarrow>
        priority r \<in> {Low, Medium, High, Critical}
        \<and> (priority r \<in> {High, Critical} \<longrightarrow> approvalRequired r))
   \<and> (priority (recommendFullRestDay B hs) = Critical
        \<and> approvalRequired (recommendFullRestDay B hs))
   \<and> (priority (recommendActivityModeration B hs hc) = High
        \<and> approvalRequired (recommendActivityModeration B hs hc))
   \<and> (priority (recommendWellnessActivity hs) = Medium
        \<and> \<not> approvalRequired (recommendWellnessActivity hs))
   \<and> (priority (recommendSkipGolf B gs) = High \<and> approvalRequired (recommendSkipGolf B gs))
   \<and> (\<forall>r. recommendCourseSubstitution B gs gc = Inr r \<longrightarrow>
              priority r = High \<and> approvalRequired r)
   \<and> (priority (recommendOptimalCourse B gs gc) \<in> {Low, Medium}
        \<and> \<not> approvalRequired (recommendOptimalCourse B gs gc))
   \<and> (\<forall>r. recommendCriticalAction B vs bs bc = Inr r \<longrightarrow>
              priority r = Critical \<and> approvalRequired r)
   \<and> (\<forall>r. recommendBudgetAdjustment B vs bs bc = Inr r \<longrightarrow>
              priority r = High \<and> approvalRequired r)
   \<and> (priority (recommendPrepaidUtilization B us bs) = Medium
        \<and> \<not> approvalRequired (recommendPrepaidUtilization B us bs))
   \<and> (priority (recommendBufferIncrease B a ts) = High
        \<and> approvalRequired (recommendBufferIncrease B a ts))
   \<and> (priority (recommendRiskMitigation B rs ts tc) = Medium
        \<and> \<not> approvalRequired (recommendRiskMitigation B rs ts tc))
   \<and> (priority (confirmTransportPlan ts tc) = Low
        \<and> \<not> approvalRequired (confirmTransportPlan ts tc))"
proof -
  have h: "\<forall>r. fst (HealthRecoveryAgent_analyze B w hc) = Inr r \<longrightarrow>
        priority r \<in> {Low, Medium, High, Critical}
        \<and> (priority r \<in> {High, Critical} \<longrightarrow> approvalRequired r)"
    using health_invariant priority_cases by blast
  have g: "\<forall>r. fst (GolfOperationsAgent_analyze B w gc) = Inr r \<longrightarrow>
        priority r \<in> {Low, Medium, High, Critical}
        \<and> (priority r \<in> {High, Critical} \<longrightarrow> approvalRequired r)"
    using golf_invariant priority_cases by blast
  have b: "\<forall>r. fst (BudgetControlAgent_analyze B w bc) = Inr r \<longrightarrow>
        priority r \<in> {Low, Medium, High, Critical}
        \<and> (priority r \<in> {High, Critical} \<longrightarrow> approvalRequired r)"
    using budget_invariant priority_cases by blast
  have t: "\<forall>r. fst (TransportLogisticsAgent_analyze B w tc) = Inr r \<longrightarrow>
        priority r \<in> {Low, Medium, High, Critical}
        \<and> (priority r \<in> {High, Critical} \<longrightarrow> approvalRequired r)"
    using transport_invariant priority_cases by blast
  have cs: "\<forall>r. recommendCourseSubstitution B gs gc = Inr r \<longrightarrow>
              priority r = High \<and> approvalRequired r"
    using golf_branches(2) by blast
  have ca: "\<forall>r. recommendCriticalAction B vs bs bc = Inr r \<longrightarrow>
              priority r = Critical \<and> approvalRequired r"
    using budget_branches(1) by blast
  have ba: "\<forall>r. recommendBudgetAdjustment B vs bs bc = Inr r \<longrightarrow>
              priority r = High \<and> approvalRequired r"
    using budget_branches(2) by blast
  note branches = health_branches(1) [of B hs] health_branches(2) [of B hs hc]
    health_branches(3) [of hs] golf_branches(1) [of B gs] golf_branches(3) [of B gs gc]
    budget_branches(3) [of B us bs] transport_branches(1) [of B a ts]
    transport_branches(2) [of B rs ts tc] transport_branches(3) [of ts tc]
  from h g b t cs ca ba branches show ?thesis
    by (intro conjI) (assumption | erule conjunct1 | erule conjunct2)+
qed

text \<open>Scenario 1 again: the recommendation is critical, so it needs approval.\<close>

theorem priority_approval_scenario1:
  "\<exists>r. fst (HealthRecoveryAgent_analyze sample_builtins initial_world scenario1_context) = Inr r
       \<and> priority r = Critical \<and> approvalRequired r"
proof -
  have e: "map_sum id priority
             (fst (HealthRecoveryAgent_analyze sample_builtins initial_world scenario1_context))
           = Inr Critical"
    by code_simp
  then obtain r where r:
    "fst (HealthRecoveryAgent_analyze sample_builtins initial_world scenario1_context) = Inr r"
    "priority r = Critical"
    by (cases "fst (HealthRecoveryAgent_analyze sample_builtins initial_world scenario1_context)")
       auto
  then have "approvalRequired r"
    using priority_approval_invariant
      [of sample_builtins initial_world scenario1_context scenario2_context
          "budget_context boundary_entries" flight_context]
    by simp
  with r show ?thesis by blast
qed

section \<open>Golf: the location gate\<close>



section \<open>Transport: the buffer check\<close>

lemma assessBuffers_sufficient:
  "assessBuffers B c = Inr a \<Longrightarrow> \<not> insufficient a"
  by (auto simp: assessBuffers_def split: option.splits if_splits sum.splits transport.splits)

lemma assessBuffers_returns:
  assumes "currentLocation c = Val loc"
  shows "\<exists>a. assessBuffers B c = Inr a \<and> insufficient a = False"
  using assms
  by (auto simp: assessBuffers_def isInternationalFlight_def deref_def Let_def
        split: option.splits transport.splits)

lemma transport_never_high:
  assumes "fst (TransportLogisticsAgent_analyze B w c) = Inr r"
  shows "priority r \<noteq> High \<and> priority r \<noteq> Critical
         \<and> decision r \<noteq> ''Insufficient transport buffer''"
  using assms unfolding TransportLogisticsAgent_analyze_def Let_def
  by (auto simp: createRecommendation_def recommendRiskMitigation_def confirmTransportPlan_def
        Let_def dest: assessBuffers_sufficient split: sum.splits if_splits)

lemma Promise_all_Inr:
  "Promise_all p1 p2 p3 p4 = Inr (v1, v2, v3, v4) \<longleftrightarrow>
     p1 = Awaited (Inr v1) \<and> p2 = Awaited (Inr v2) \<and> p3 = Awaited (Inr v3)
     \<and> p4 = Awaited (Inr v4)"
  by (cases p1; cases p2; cases p3; cases p4)
     (auto simp: Promise_all_def outcome_def split: sum.splits)

lemma getTransport_Awaited:
  assumes "fst (getTransportRecommendation B w c) = Awaited (Inr t)"
  shows "priority t \<noteq> High \<and> priority t \<noteq> Critical"
  using assms unfolding getTransportRecommendation_def Let_def
  by (auto simp: split_beta split: sum.splits dest: transport_never_high)

lemma coordination_logistics:
  assumes "applyCoordinationRules B h g b t c = Inr r"
      and "priority t \<noteq> High" and "priority t \<noteq> Critical"
  shows "decision r \<noteq> ''Logistics priority override''"
  using assms unfolding applyCoordinationRules_def
  by (auto simp: createRecommendation_def split: if_splits sum.splits)

lemma txa_Inr:
  assumes "fst (TravelExperienceAgent_analyze B w c) = Inr r"
  shows "\<exists>h g b t. fst (getHealthRecommendation B wh c) = Awaited (Inr h)
           \<and> fst (getGolfRecommendation B wg c) = Awaited (Inr g)
           \<and> fst (getBudgetRecommendation B wb c) = Awaited (Inr b)
           \<and> fst (getTransportRecommendation B wt c) = Awaited (Inr t)
           \<and> applyCoordinationRules B h g b t c = Inr r"
  using assms unfolding txa_result [of B w c wh wg wb wt]
  by (auto simp: Promise_all_Inr split: sum.splits)

text \<open>
  Claim C9. The buffer assessment of the Transport agent never reports an insufficient buffer
  (and it does report, unless it is asked about a flight from a location that is
  \<^verbatim>\<open>undefined\<close> or \<^verbatim>\<open>null\<close>), so the agent never returns the recommendation \<open>Insufficient transport buffer\<close> nor any
  recommendation of priority high or critical, and the orchestrator never decides
  \<open>Logistics priority override\<close>.
\<close>

theorem transport_buffer_never_insufficient:
  "(\<forall>a. assessBuffers B tc = Inr a \<longrightarrow> insufficient a = False)
   \<and> (\<forall>loc. currentLocation tc = Val loc \<longrightarrow>
          (\<exists>a. assessBuffers B tc = Inr a \<and> insufficient a = False))
   \<and> (\<forall>r. fst (TransportLogisticsAgent_analyze B w tc) = Inr r \<longrightarrow>
          decision r \<noteq> ''Insufficient transport buffer''
          \<and> priority r \<noteq> High \<and> priority r \<noteq> Critical)
   \<and> (\<forall>r. fst (TravelExperienceAgent_analyze B w c) = Inr r \<longrightarrow>
          decision r \<noteq> ''Logistics priority override'')"
proof (intro conjI allI impI)
  fix a assume "assessBuffers B tc = Inr a"
  then show "insufficient a = False" by (simp add: assessBuffers_sufficient)
next
  fix loc assume "currentLocation tc = Val loc"
  then show "\<exists>a. assessBuffers B tc = Inr a \<and> insufficient a = False"
    by (rule assessBuffers_returns)
next
  fix r assume r: "fst (TransportLogisticsAgent_analyze B w tc) = Inr r"
  show "decision r \<noteq> ''Insufficient transport buffer''"
    using transport_never_high [OF r] by blast
  show "priority r \<noteq> High" using transport_never_high [OF r] by blast
  show "priority r \<noteq> Critical" using transport_never_high [OF r] by blast
next
  fix r assume "fst (TravelExperienceAgent_analyze B w c) = Inr r"
  then obtain h g b t where
    t: "fst (getTransportRecommendation B w c) = Awaited (Inr t)"
    and a: "applyCoordinationRules B h g b t c = Inr r"
    using txa_Inr [of B w c r w w w w] by blast
  show "decision r \<noteq> ''Logistics priority override''"
    using coordination_logistics [OF a] getTransport_Awaited [OF t] by blast
qed

text \<open>An international flight with a departure time: the required buffer is 120 minutes.\<close>

theorem transport_buffer_flight:
  "map_sum id requiredBuffer (assessBuffers sample_builtins flight_context) = Inr 120
   \<and> map_sum id insufficient (assessBuffers sample_builtins flight_context) = Inr False
   \<and> map_sum id decision
        (fst (TransportLogisticsAgent_analyze sample_builtins initial_world flight_context))
      = Inr ''Transport plan confirmed''"
proof -
  have e: "map_sum id requiredBuffer (assessBuffers sample_builtins flight_context) = Inr 120"
    by code_simp
  have d: "map_sum id decision
        (fst (TransportLogisticsAgent_analyze sample_builtins initial_world flight_context))
      = Inr ''Transport plan confirmed''"
    by code_simp
  obtain a where a: "assessBuffers sample_builtins flight_context = Inr a"
    using e by (cases "assessBuffers sample_builtins flight_context") auto
  then have "insufficient a = False"
    using transport_buffer_never_insufficient
      [of sample_builtins flight_context initial_world golf_day_context]
    by blast
  with a e d show ?thesis by simp
qed

section \<open>Validation checks the presence of a key\<close>

lemma Promise_all_Inl:
  "Promise_all p1 p2 p3 p4 = Inl e \<Longrightarrow>
     outcome p1 = Inl e \<or> outcome p2 = Inl e \<or> outcome p3 = Inl e \<or> outcome p4 = Inl e"
  by (cases p1; cases p2; cases p3; cases p4)
     (auto simp: Promise_all_def outcome_def split: sum.splits)

lemma validateContext_not_Inr:
  "validateContext a has req \<noteq> Inr () \<Longrightarrow>
     validateContext a has req =
       Inl (Error (a @ '' missing required context fields: ''
                     @ join '', '' (filter (\<lambda>f. \<not> has f) req)))"
  by (simp add: validateContext_def Let_def split: if_splits)

lemma deref_Inl: "deref v = Inl e \<Longrightarrow> e = TypeError"
  by (simp add: deref_def split: field.splits)

lemma health_proceeds:
  assumes "tripId c \<noteq> Absent" and "userId c \<noteq> Absent" and "date c \<noteq> Absent"
      and "consecutiveActiveDays c \<noteq> Absent"
  shows "\<exists>r. fst (HealthRecoveryAgent_analyze B w c) = Inr r"
proof -
  have "validateContext health_name (HealthRecoveryContext_has c)
          [''tripId'', ''userId'', ''date'', ''consecutiveActiveDays''] = Inr ()"
    using assms by (simp add: health_validate)
  then show ?thesis by (simp add: HealthRecoveryAgent_analyze_def Let_def)
qed

lemma health_missing:
  assumes "tripId c = Absent \<or> userId c = Absent \<or> date c = Absent
           \<or> consecutiveActiveDays c = Absent"
  shows "fst (HealthRecoveryAgent_analyze B w c) =
           Inl (Error (health_name @ '' missing required context fields: ''
             @ join '', '' (filter (\<lambda>f. \<not> HealthRecoveryContext_has c f)
                              [''tripId'', ''userId'', ''date'', ''consecutiveActiveDays''])))"
proof -
  have "validateContext health_name (HealthRecoveryContext_has c)
          [''tripId'', ''userId'', ''date'', ''consecutiveActiveDays''] \<noteq> Inr ()"
    using assms by (simp add: health_validate)
  from validateContext_not_Inr [OF this] show ?thesis
    by (simp add: HealthRecoveryAgent_analyze_def)
qed

lemma recommendCourseSubstitution_Inl:
  "recommendCourseSubstitution B s c = Inl e \<Longrightarrow> e = TypeError"
  by (auto simp: recommendCourseSubstitution_def Let_def
        split: option.splits if_splits sum.splits)

lemma golf_no_Error:
  assumes "tripId c \<noteq> Absent" and "userId c \<noteq> Absent" and "date c \<noteq> Absent"
      and "location c \<noteq> Absent"
  shows "fst (GolfOperationsAgent_analyze B w c) \<noteq> Inl (Error m)"
proof
  assume e: "fst (GolfOperationsAgent_analyze B w c) = Inl (Error m)"
  have v: "validateContext golf_name (GolfOperationsContext_has c)
          [''tripId'', ''userId'', ''date'', ''location''] = Inr ()"
    using assms by (simp add: golf_validate)
  from e show False
    unfolding GolfOperationsAgent_analyze_def Let_def v
    by (auto split: field.splits if_splits dest: recommendCourseSubstitution_Inl)
qed

lemma golf_missing:
  assumes "tripId c = Absent \<or> userId c = Absent \<or> date c = Absent \<or> location c = Absent"
  shows "fst (GolfOperationsAgent_analyze B w c) =
           Inl (Error (golf_name @ '' missing required context fields: ''
             @ join '', '' (filter (\<lambda>f. \<not> GolfOperationsContext_has c f)
                              [''tripId'', ''userId'', ''date'', ''location''])))"
proof -
  have "validateContext golf_name (GolfOperationsContext_has c)
          [''tripId'', ''userId'', ''date'', ''location''] \<noteq> Inr ()"
    using assms by (simp add: golf_validate)
  from validateContext_not_Inr [OF this] show ?thesis
    by (simp add: GolfOperationsAgent_analyze_def)
qed

lemma budget_parts_Inl:
  "BudgetControlAgent_collectSignals c = Inl e \<Longrightarrow> e = TypeError"
  "calculateVariances c = Inl e \<Longrightarrow> e = TypeError"
  "findUnderbudgetCategories c = Inl e \<Longrightarrow> e = TypeError"
  "recommendCriticalAction B vs s c = Inl e \<Longrightarrow> e = TypeError"
  "recommendBudgetAdjustment B vs s c = Inl e \<Longrightarrow> e = TypeError"
  by (auto simp: BudgetControlAgent_collectSignals_def calculateVariances_def
        findUnderbudgetCategories_def recommendCriticalAction_def
        recommendBudgetAdjustment_def Let_def
        split: sum.splits dest: deref_Inl)

lemma budget_no_Error:
  assumes "tripId c \<noteq> Absent" and "userId c \<noteq> Absent" and "date c \<noteq> Absent"
      and "trip c \<noteq> Absent" and "categorySpend c \<noteq> Absent"
  shows "fst (BudgetControlAgent_analyze B w c) \<noteq> Inl (Error m)"
proof
  assume e: "fst (BudgetControlAgent_analyze B w c) = Inl (Error m)"
  have v: "validateContext budget_name (BudgetControlContext_has c)
          [''tripId'', ''userId'', ''date'', ''trip'', ''categorySpend''] = Inr ()"
    using assms by (simp add: budget_validate)
  from e show False
    unfolding BudgetControlAgent_analyze_def Let_def v
    by (auto split: sum.splits if_splits option.splits list.splits dest: budget_parts_Inl)
qed

lemma budget_missing:
  assumes "tripId c = Absent \<or> userId c = Absent \<or> date c = Absent \<or> trip c = Absent
           \<or> categorySpend c = Absent"
  shows "fst (BudgetControlAgent_analyze B w c) =
           Inl (Error (budget_name @ '' missing required context fields: ''
             @ join '', '' (filter (\<lambda>f. \<not> BudgetControlContext_has c f)
                              [''tripId'', ''userId'', ''date'', ''trip'', ''categorySpend''])))"
proof -
  have "validateContext budget_name (BudgetControlContext_has c)
          [''tripId'', ''userId'', ''date'', ''trip'', ''categorySpend''] \<noteq> Inr ()"
    using assms by (simp add: budget_validate)
  from validateContext_not_Inr [OF this] show ?thesis
    by (simp add: BudgetControlAgent_analyze_def)
qed

lemma assessBuffers_Inl: "assessBuffers B c = Inl e \<Longrightarrow> e = TypeError"
  by (auto simp: assessBuffers_def isInternationalFlight_def Let_def
        split: option.splits if_splits sum.splits transport.splits dest: deref_Inl)

lemma transport_no_Error:
  assumes "tripId c \<noteq> Absent" and "userId c \<noteq> Absent" and "date c \<noteq> Absent"
      and "currentLocation c \<noteq> Absent"
  shows "fst (TransportLogisticsAgent_analyze B w c) \<noteq> Inl (Error m)"
proof
  assume e: "fst (TransportLogisticsAgent_analyze B w c) = Inl (Error m)"
  have v: "validateContext transport_name (TransportLogisticsContext_has c)
          [''tripId'', ''userId'', ''date'', ''currentLocation''] = Inr ()"
    using assms by (simp add: transport_validate)
  from e show False
    unfolding TransportLogisticsAgent_analyze_def Let_def v
    by (auto split: sum.splits if_splits dest: assessBuffers_Inl)
qed

lemma transport_missing:
  assumes "tripId c = Absent \<or> userId c = Absent \<or> date c = Absent
           \<or> currentLocation c = Absent"
  shows "fst (TransportLogisticsAgent_analyze B w c) =
           Inl (Error (transport_name @ '' missing required context fields: ''
             @ join '', '' (filter (\<lambda>f. \<not> TransportLogisticsContext_has c f)
                              [''tripId'', ''userId'', ''date'', ''currentLocation''])))"
proof -
  have "validateContext transport_name (TransportLogisticsContext_has c)
          [''tripId'', ''userId'', ''date'', ''currentLocation''] \<noteq> Inr ()"
    using assms by (simp add: transport_validate)
  from validateContext_not_Inr [OF this] show ?thesis
    by (simp add: TransportLogisticsAgent_analyze_def)
qed

text \<open>Inside the orchestrator no specialist fails its own validation.\<close>

lemma health_no_Error:
  assumes "tripId c \<noteq> Absent" and "userId c \<noteq> Absent" and "date c \<noteq> Absent"
      and "consecutiveActiveDays c \<noteq> Absent"
  shows "fst (HealthRecoveryAgent_analyze B w c) \<noteq> Inl (Error m)"
  using health_proceeds [OF assms, of B w] by auto

lemma getHealth_no_Error:
  assumes "tripId c \<noteq> Absent" and "userId c \<noteq> Absent" and "date c \<noteq> Absent"
  shows "outcome (fst (getHealthRecommendation B w c)) \<noteq> Inl (Error m)"
  using assms unfolding getHealthRecommendation_def Let_def calculateConsecutiveActiveDays_def
  by (auto simp: split_beta outcome_def deref_def health_no_Error
        split: sum.splits field.splits)

lemma getGolf_no_Error:
  assumes "tripId c \<noteq> Absent" and "userId c \<noteq> Absent" and "date c \<noteq> Absent"
  shows "outcome (fst (getGolfRecommendation B w c)) \<noteq> Inl (Error m)"
  using assms unfolding getGolfRecommendation_def Let_def
  by (auto simp: split_beta outcome_def deref_def golf_no_Error split: sum.splits field.splits)

lemma getBudget_no_Error:
  assumes "tripId c \<noteq> Absent" and "userId c \<noteq> Absent" and "date c \<noteq> Absent"
  shows "outcome (fst (getBudgetRecommendation B w c)) \<noteq> Inl (Error m)"
  using assms unfolding getBudgetRecommendation_def Let_def
  by (auto simp: split_beta outcome_def deref_def budget_no_Error
        split: sum.splits field.splits)

lemma getTransport_no_Error:
  assumes "tripId c \<noteq> Absent" and "userId c \<noteq> Absent" and "date c \<noteq> Absent"
  shows "outcome (fst (getTransportRecommendation B w c)) \<noteq> Inl (Error m)"
  using assms unfolding getTransportRecommendation_def Let_def
  by (auto simp: split_beta outcome_def deref_def transport_no_Error
        split: sum.splits field.splits)

lemma coordination_no_Error:
  "applyCoordinationRules B h g b t c \<noteq> Inl (Error m)"
  by (auto simp: applyCoordinationRules_def buildNominalSummary_def deref_def Let_def
        split: sum.splits field.splits)

lemma txa_no_Error:
  assumes "tripId c \<noteq> Absent" and "userId c \<noteq> Absent" and "date c \<noteq> Absent"
      and "txa_trip c \<noteq> Absent" and "currentItinerary c \<noteq> Absent"
  shows "fst (TravelExperienceAgent_analyze B w c) \<noteq> Inl (Error m)"
proof
  assume e: "fst (TravelExperienceAgent_analyze B w c) = Inl (Error m)"
  have v: "validateContext txa_name (TravelExperienceContext_has c)
          [''tripId'', ''userId'', ''date'', ''trip'', ''currentItinerary''] = Inr ()"
    using assms by (simp add: txa_validate)
  from e v consider
    (fanout) "Promise_all (fst (getHealthRecommendation B w c))
            (fst (getGolfRecommendation B w c)) (fst (getBudgetRecommendation B w c))
            (fst (getTransportRecommendation B w c)) = Inl (Error m)"
    | (rules) h g b t where "applyCoordinationRules B h g b t c = Inl (Error m)"
    unfolding txa_result [of B w c w w w w]
    by (auto simp: deref_def split: sum.splits field.splits)
  then show False
  proof cases
    case fanout
    from Promise_all_Inl [OF fanout] show False
      using getHealth_no_Error [OF assms(1-3), of B w m]
        getGolf_no_Error [OF assms(1-3), of B w m]
        getBudget_no_Error [OF assms(1-3), of B w m]
        getTransport_no_Error [OF assms(1-3), of B w m]
      by blast
  next
    case rules
    then show False by (simp add: coordination_no_Error)
  qed
qed

lemma txa_missing:
  assumes "tripId c = Absent \<or> userId c = Absent \<or> date c = Absent \<or> txa_trip c = Absent
           \<or> currentItinerary c = Absent"
  shows "fst (TravelExperienceAgent_analyze B w c) =
           Inl (Error (txa_name @ '' missing required context fields: ''
             @ join '', '' (filter (\<lambda>f. \<not> TravelExperienceContext_has c f)
                              [''tripId'', ''userId'', ''date'', ''trip'',
                               ''currentItinerary''])))"
proof -
  have "validateContext txa_name (TravelExperienceContext_has c)
          [''tripId'', ''userId'', ''date'', ''trip'', ''currentItinerary''] \<noteq> Inr ()"
    using assms by (simp add: txa_validate)
  from validateContext_not_Inr [OF this] show ?thesis
    by (simp add: TravelExperienceAgent_analyze_def)
qed

text \<open>
  Claim C10. \<^verbatim>\<open>validateContext\<close> succeeds exactly when every required field is a key of the
  context, whatever the key holds. Each agent throws the error that names it and lists the
  missing fields exactly when a required key is absent. When every required key is there,
  also one holding \<^verbatim>\<open>undefined\<close> or \<^verbatim>\<open>null\<close>, no agent throws that error: the Health agent
  then returns a recommendation, and the other agents go on with the value (and may throw a
  \<^verbatim>\<open>TypeError\<close> when they read a property of it).
\<close>

theorem validation_checks_key_presence:
  "(validateContext a has req = Inr () \<longleftrightarrow> (\<forall>f \<in> set req. has f))
   \<and> (validateContext a has req \<noteq> Inr () \<longrightarrow>
        validateContext a has req =
          Inl (Error (a @ '' missing required context fields: ''
                        @ join '', '' (filter (\<lambda>f. \<not> has f) req))))
   \<and> (if tripId hc \<noteq> Absent \<and> userId hc \<noteq> Absent \<and> date hc \<noteq> Absent
          \<and> consecutiveActiveDays hc \<noteq> Absent
       then \<exists>r. fst (HealthRecoveryAgent_analyze B w hc) = Inr r
       else fst (HealthRecoveryAgent_analyze B w hc) =
              Inl (Error (health_name @ '' missing required context fields: ''
                @ join '', '' (filter (\<lambda>f. \<not> HealthRecoveryContext_has hc f)
                     [''tripId'', ''userId'', ''date'', ''consecutiveActiveDays'']))))
   \<and> (if tripId gc \<noteq> Absent \<and> userId gc \<noteq> Absent \<and> date gc \<noteq> Absent
          \<and> location gc \<noteq> Absent
       then \<forall>m. fst (GolfOperationsAgent_analyze B w gc) \<noteq> Inl (Error m)
       else fst (GolfOperationsAgent_analyze B w gc) =
              Inl (Error (golf_name @ '' missing required context fields: ''
                @ join '', '' (filter (\<lambda>f. \<not> GolfOperationsContext_has gc f)
                     [''tripId'', ''userId'', ''date'', ''location'']))))
   \<and> (if tripId bc \<noteq> Absent \<and> userId bc \<noteq> Absent \<and> date bc \<noteq> Absent
          \<and> trip bc \<noteq> Absent \<and> categorySpend bc \<noteq> Absent
       then \<forall>m. fst (BudgetControlAgent_analyze B w bc) \<noteq> Inl (Error m)
       else fst (BudgetControlAgent_analyze B w bc) =
              Inl (Error (budget_name @ '' missing required context fields: ''
                @ join '', '' (filter (\<lambda>f. \<not> BudgetControlContext_has bc f)
                     [''tripId'', ''userId'', ''date'', ''trip'', ''categorySpend'']))))
   \<and> (if tripId tc \<noteq> Absent \<and> userId tc \<noteq> Absent \<and> date tc \<noteq> Absent
          \<and> currentLocation tc \<noteq> Absent
       then \<forall>m. fst (TransportLogisticsAgent_analyze B w tc) \<noteq> Inl (Error m)
       else fst (TransportLogisticsAgent_analyze B w tc) =
              Inl (Error (transport_name @ '' missing required context fields: ''
                @ join '', '' (filter (\<lambda>f. \<not> TransportLogisticsContext_has tc f)
                     [''tripId'', ''userId'', ''date'', ''currentLocation'']))))
   \<and> (if tripId c \<noteq> Absent \<and> userId c \<noteq> Absent \<and> date c \<noteq> Absent
          \<and> txa_trip c \<noteq> Absent \<and> currentItinerary c \<noteq> Absent
       then \<forall>m. fst (TravelExperienceAgent_analyze B w c) \<noteq> Inl (Error m)
       else fst (TravelExperienceAgent_analyze B w c) =
              Inl (Error (txa_name @ '' missing required context fields: ''
                @ join '', '' (filter (\<lambda>f. \<not> TravelExperienceContext_has c f)
                     [''tripId'', ''userId'', ''date'', ''trip'', ''currentItinerary'']))))"
proof (intro conjI)
  show "validateContext a has req = Inr () \<longleftrightarrow> (\<forall>f \<in> set req. has f)"
    by (simp add: validateContext_Inr list_all_iff)
  show "validateContext a has req \<noteq> Inr () \<longrightarrow>
        validateContext a has req =
          Inl (Error (a @ '' missing required context fields: ''
                        @ join '', '' (filter (\<lambda>f. \<not> has f) req)))"
    using validateContext_not_Inr by blast
  show "if tripId hc \<noteq> Absent \<and> userId hc \<noteq> Absent \<and> date hc \<noteq> Absent
          \<and> consecutiveActiveDays hc \<noteq> Absent
       then \<exists>r. fst (HealthRecoveryAgent_analyze B w hc) = Inr r
       else fst (HealthRecoveryAgent_analyze B w hc) =
              Inl (Error (health_name @ '' missing required context fields: ''
                @ join '', '' (filter (\<lambda>f. \<not> HealthRecoveryContext_has hc f)
                     [''tripId'', ''userId'', ''date'', ''consecutiveActiveDays''])))"
    using health_proceeds [of hc B w] health_missing [of hc B w]
    by (simp only: split: if_split) blast
  show "if tripId gc \<noteq> Absent \<and> userId gc \<noteq> Absent \<and> date gc \<noteq> Absent
          \<and> location gc \<noteq> Absent
       then \<forall>m. fst (GolfOperationsAgent_analyze B w gc) \<noteq> Inl (Error m)
       else fst (GolfOperationsAgent_analyze B w gc) =
              Inl (Error (golf_name @ '' missing required context fields: ''
                @ join '', '' (filter (\<lambda>f. \<not> GolfOperationsContext_has gc f)
                     [''tripId'', ''userId'', ''date'', ''location''])))"
    using golf_no_Error [of gc B w] golf_missing [of gc B w]
    by (simp only: split: if_split) blast
  show "if tripId bc \<noteq> Absent \<and> userId bc \<noteq> Absent \<and> date bc \<noteq> Absent
          \<and> trip bc \<noteq> Absent \<and> categorySpend bc \<noteq> Absent
       then \<forall>m. fst (BudgetControlAgent_analyze B w bc) \<noteq> Inl (Error m)
       else fst (BudgetControlAgent_analyze B w bc) =
              Inl (Error (budget_name @ '' missing required context fields: ''
                @ join '', '' (filter (\<lambda>f. \<not> BudgetControlContext_has bc f)
                     [''tripId'', ''userId'', ''date'', ''trip'', ''categorySpend''])))"
    using budget_no_Error [of bc B w] budget_missing [of bc B w]
    by (simp only: split: if_split) blast
  show "if tripId tc \<noteq> Absent \<and> userId tc \<noteq> Absent \<and> date tc \<noteq> Absent
          \<and> currentLocation tc \<noteq> Absent
       then \<forall>m. fst (TransportLogisticsAgent_analyze B w tc) \<noteq> Inl (Error m)
       else fst (TransportLogisticsAgent_analyze B w tc) =
              Inl (Error (transport_name @ '' missing required context fields: ''
                @ join '', '' (filter (\<lambda>f. \<not> TransportLogisticsContext_has tc f)
                     [''tripId'', ''userId'', ''date'', ''currentLocation''])))"
    using transport_no_Error [of tc B w] transport_missing [of tc B w]
    by (simp only: split: if_split) blast
  show "if tripId c \<noteq> Absent \<and> userId c \<noteq> Absent \<and> date c \<noteq> Absent
          \<and> txa_trip c \<noteq> Absent \<and> currentItinerary c \<noteq> Absent
       then \<forall>m. fst (TravelExperienceAgent_analyze B w c) \<noteq> Inl (Error m)
       else fst (TravelExperienceAgent_analyze B w c) =
              Inl (Error (txa_name @ '' missing required context fields: ''
                @ join '', '' (filter (\<lambda>f. \<not> TravelExperienceContext_has c f)
                     [''tripId'', ''userId'', ''date'', ''trip'', ''currentItinerary''])))"
    using txa_no_Error [of c B w] txa_missing [of c B w]
    by (simp only: split: if_split) blast
qed

text \<open>
  A day count that is there and \<^verbatim>\<open>undefined\<close> passes validation and the Health agent
  answers; without the keys \<^verbatim>\<open>userId\<close> and \<^verbatim>\<open>consecutiveActiveDays\<close> it throws.
\<close>

theorem validation_undefined_day_count:
  "consecutiveActiveDays undefined_days_context = Undef
   \<and> (\<exists>r. fst (HealthRecoveryAgent_analyze sample_builtins initial_world
                  undefined_days_context) = Inr r)
   \<and> fst (HealthRecoveryAgent_analyze sample_builtins initial_world missing_keys_context)
       = Inl (Error ''Health & Recovery Agent missing required context fields: userId, consecutiveActiveDays'')"
proof -
  note t = validation_checks_key_presence
    [where B = sample_builtins and w = initial_world and a = health_name
       and has = "HealthRecoveryContext_has undefined_days_context" and req = "[]"
       and gc = scenario2_context and bc = "budget_context boundary_entries"
       and tc = flight_context and c = golf_day_context]
  have u: "\<exists>r. fst (HealthRecoveryAgent_analyze sample_builtins initial_world
                  undefined_days_context) = Inr r"
    using t [where hc = undefined_days_context] by (simp add: undefined_days_context_def)
  have m: "fst (HealthRecoveryAgent_analyze sample_builtins initial_world missing_keys_context)
       = Inl (Error ''Health & Recovery Agent missing required context fields: userId, consecutiveActiveDays'')"
    using t [where hc = missing_keys_context]
    by (simp add: missing_keys_context_def undefined_days_context_def health_name_def
          HealthRecoveryContext_has_def)
  show ?thesis using u m by (simp add: undefined_days_context_def)
qed

section \<open>Aggregation failure\<close>




section \<open>Coordination: health first\<close>

lemma coordination_health:
  assumes "priority healthRec = Critical \<or> priority healthRec = High"
  shows "applyCoordinationRules B healthRec golfRec budgetRec transportRec c =
     Inr \<lparr>decision = ''Health priority override'',
          rationale = ''Health & recovery agent recommends intervention. Health rationale: ''
                      @ rationale healthRec,
          inputSignals =
            JObj [(''healthRecommendation'', recommendation_js healthRec),
                  (''otherRecommendations'',
                     JObj [(''golf'', recommendation_js golfRec),
                           (''budget'', recommendation_js budgetRec),
                           (''transport'', recommendation_js transportRec)])],
          outputActions =
            outputActions healthRec
            @ ['''', ''Other agent recommendations deferred to prioritize well-being.''],
          approvalRequired = approvalRequired healthRec,
          priority = priority healthRec\<rparr>"
  using assms by (auto simp: applyCoordinationRules_def createRecommendation_def)

text \<open>
  Claim C1, as the code has it. The final decision text is never the decision text of the
  Health agent, as the golf day below shows. What holds is this. When
  the recommendation of the Health agent has priority critical or high, the final
  recommendation has the fixed decision text \<open>Health priority override\<close>, its rationale is
  a fixed sentence followed by the rationale of the Health agent, its actions are the actions of
  the Health agent followed by an empty line and the note that the other recommendations were
  deferred, and its approval flag and priority are those of the Health agent, whatever the other
  three agents recommend. This holds of the coordination rules for any four recommendations and
  of \<^verbatim>\<open>analyze\<close> for any context for which it returns.
\<close>

theorem coordination_health_precedence:
  "(priority healthRec = Critical \<or> priority healthRec = High \<longrightarrow>
      applyCoordinationRules B healthRec golfRec budgetRec transportRec c =
        Inr \<lparr>decision = ''Health priority override'',
             rationale = ''Health & recovery agent recommends intervention. Health rationale: ''
                         @ rationale healthRec,
             inputSignals =
               JObj [(''healthRecommendation'', recommendation_js healthRec),
                     (''otherRecommendations'',
                        JObj [(''golf'', recommendation_js golfRec),
                              (''budget'', recommendation_js budgetRec),
                              (''transport'', recommendation_js transportRec)])],
             outputActions =
               outputActions healthRec
               @ ['''', ''Other agent recommendations deferred to prioritize well-being.''],
             approvalRequired = approvalRequired healthRec,
             priority = priority healthRec\<rparr>)
   \<and> (\<forall>r h. fst (TravelExperienceAgent_analyze B w c) = Inr r
          \<and> outcome (fst (getHealthRecommendation B w' c)) = Inr h
          \<and> (priority h = Critical \<or> priority h = High) \<longrightarrow>
          decision r = ''Health priority override''
          \<and> rationale r = ''Health & recovery agent recommends intervention. Health rationale: ''
                           @ rationale h
          \<and> outputActions r =
               outputActions h
               @ ['''', ''Other agent recommendations deferred to prioritize well-being.'']
          \<and> approvalRequired r = approvalRequired h
          \<and> priority r = priority h)"
proof (intro conjI allI impI)
  assume "priority healthRec = Critical \<or> priority healthRec = High"
  then show "applyCoordinationRules B healthRec golfRec budgetRec transportRec c =
        Inr \<lparr>decision = ''Health priority override'',
             rationale = ''Health & recovery agent recommends intervention. Health rationale: ''
                         @ rationale healthRec,
             inputSignals =
               JObj [(''healthRecommendation'', recommendation_js healthRec),
                     (''otherRecommendations'',
                        JObj [(''golf'', recommendation_js golfRec),
                              (''budget'', recommendation_js budgetRec),
                              (''transport'', recommendation_js transportRec)])],
             outputActions =
               outputActions healthRec
               @ ['''', ''Other agent recommendations deferred to prioritize well-being.''],
             approvalRequired = approvalRequired healthRec,
             priority = priority healthRec\<rparr>"
    by (rule coordination_health)
next
  fix r h
  assume a: "fst (TravelExperienceAgent_analyze B w c) = Inr r
          \<and> outcome (fst (getHealthRecommendation B w' c)) = Inr h
          \<and> (priority h = Critical \<or> priority h = High)"
  then obtain h' g b t where
    h': "fst (getHealthRecommendation B w' c) = Awaited (Inr h')"
    and r: "applyCoordinationRules B h' g b t c = Inr r"
    using txa_Inr [of B w c r w' w w w] by blast
  from h' a have "h' = h" by (simp add: outcome_def)
  with r a have "r = \<lparr>decision = ''Health priority override'',
             rationale = ''Health & recovery agent recommends intervention. Health rationale: ''
                         @ rationale h,
             inputSignals =
               JObj [(''healthRecommendation'', recommendation_js h),
                     (''otherRecommendations'',
                        JObj [(''golf'', recommendation_js g),
                              (''budget'', recommendation_js b),
                              (''transport'', recommendation_js t)])],
             outputActions =
               outputActions h
               @ ['''', ''Other agent recommendations deferred to prioritize well-being.''],
             approvalRequired = approvalRequired h,
             priority = priority h\<rparr>"
    using coordination_health [of h B g b t c] by simp
  then show "decision r = ''Health priority override''"
    and "rationale r = ''Health & recovery agent recommends intervention. Health rationale: ''
                           @ rationale h"
    and "outputActions r =
               outputActions h
               @ ['''', ''Other agent recommendations deferred to prioritize well-being.'']"
    and "approvalRequired r = approvalRequired h"
    and "priority r = priority h"
    by simp_all
qed

text \<open>
  The golf day after a night of poor sleep. The Health agent decides
  \<open>Cancel all planned activities - full rest day required\<close> with priority critical; the
  orchestrator decides \<open>Health priority override\<close>.
\<close>

theorem coordination_health_decision_text:
  "map_sum id priority
     (outcome (fst (getHealthRecommendation sample_builtins initial_world golf_day_context)))
     = Inr Critical
   \<and> map_sum id decision
       (outcome (fst (getHealthRecommendation sample_builtins initial_world golf_day_context)))
     = Inr ''Cancel all planned activities - full rest day required''
   \<and> map_sum id decision
       (fst (TravelExperienceAgent_analyze sample_builtins initial_world golf_day_context))
     = Inr ''Health priority override''"
  by code_simp

theorem coordination_health_precedence_golf_day:
  "\<exists>r h. fst (TravelExperienceAgent_analyze sample_builtins initial_world golf_day_context)
            = Inr r
         \<and> outcome (fst (getHealthRecommendation sample_builtins initial_world
                           golf_day_context)) = Inr h
         \<and> priority h = Critical \<and> priority r = Critical
         \<and> approvalRequired r = approvalRequired h
         \<and> outputActions r =
              outputActions h
              @ ['''', ''Other agent recommendations deferred to prioritize well-being.'']"
proof -
  have "map_sum id priority
     (outcome (fst (getHealthRecommendation sample_builtins initial_world golf_day_context)))
     = Inr Critical"
    by code_simp
  then obtain h where h:
    "outcome (fst (getHealthRecommendation sample_builtins initial_world golf_day_context))
       = Inr h" "priority h = Critical"
    by (cases "outcome (fst (getHealthRecommendation sample_builtins initial_world
                               golf_day_context))") auto
  have "\<not> isl (fst (TravelExperienceAgent_analyze sample_builtins initial_world
                      golf_day_context))"
    by code_simp
  then obtain r where r:
    "fst (TravelExperienceAgent_analyze sample_builtins initial_world golf_day_context) = Inr r"
    by (cases "fst (TravelExperienceAgent_analyze sample_builtins initial_world
                      golf_day_context)") auto
  note t = coordination_health_precedence
      [of h sample_builtins h h h golf_day_context initial_world initial_world,
        THEN conjunct2, rule_format, of r h]
  have "decision r = ''Health priority override''
          \<and> rationale r = ''Health & recovery agent recommends intervention. Health rationale: ''
                           @ rationale h
          \<and> outputActions r =
               outputActions h
               @ ['''', ''Other agent recommendations deferred to prioritize well-being.'']
          \<and> approvalRequired r = approvalRequired h
          \<and> priority r = priority h"
    by (rule t) (simp add: r h)
  with h r show ?thesis
    by (intro exI [of _ r] exI [of _ h]) simp
qed

section \<open>Golf: substitution for the weather\<close>

lemma golf_in_vietnam:
  assumes "tripId c \<noteq> Absent" and "userId c \<noteq> Absent" and "date c \<noteq> Absent"
      and "location c = Val loc" and "isVietnamLocation loc"
      and "\<not> shouldSkipGolf (GolfOperationsAgent_collectSignals c)"
  shows "fst (GolfOperationsAgent_analyze B w c) =
           (if shouldSubstituteCourse (GolfOperationsAgent_collectSignals c) c
            then recommendCourseSubstitution B (GolfOperationsAgent_collectSignals c) c
            else Inr (recommendOptimalCourse B (GolfOperationsAgent_collectSignals c) c))"
proof -
  have "validateContext golf_name (GolfOperationsContext_has c)
          [''tripId'', ''userId'', ''date'', ''location''] = Inr ()"
    using assms(1-4) by (simp add: golf_validate)
  then show ?thesis
    using assms(4-6) by (simp add: GolfOperationsAgent_analyze_def Let_def)
qed

lemma shouldSubstituteCourse_iff:
  assumes "weatherForecast c = Some wx"
  shows "shouldSubstituteCourse (GolfOperationsAgent_collectSignals c) c \<longleftrightarrow>
           (\<exists>x. rainfall wx = Some x \<and> x > 10) \<or> temperature wx > 35
           \<or> (temperature wx > 32 \<and> humidity wx > 80)"
  using assms
  by (auto simp: shouldSubstituteCourse_def GolfOperationsAgent_collectSignals_def
        truthy_gt_def split: option.splits)

lemma recommendCourseSubstitution_fields:
  assumes "weatherForecast c = Some wx" and "availableCourses c = Some cs"
  shows "\<exists>r. recommendCourseSubstitution B (GolfOperationsAgent_collectSignals c) c = Inr r
           \<and> decision r = ''Substitute golf course due to weather''
           \<and> priority r = High \<and> approvalRequired r
           \<and> (temperature wx > 35 \<and> \<not> (\<exists>x. rainfall wx = Some x \<and> x > 10)
                \<and> find (\<lambda>k. str_includes (name k) ''Ba Na Hills'') cs = Some b \<longrightarrow>
               outputActions r =
                 [''Substitute to '' @ name b @ '' (cooler mountain climate)'',
                  ''Earlier tee time (before 8am)''])"
  using assms
  by (auto simp: recommendCourseSubstitution_def GolfOperationsAgent_collectSignals_def
        createRecommendation_def truthy_gt_def Let_def split: option.splits)

text \<open>
  Claim C4, as the code has it. At 34 degrees and 78 percent humidity no condition of the
  substitution holds (34 is not above 35, 78 is not above 80), so Scenario 2 gets the
  recommendation of a course to play, with priority medium: see the scenario below. What holds
  is this. Take a context that passes validation, in a location of Vietnam, where golf is not
  skipped, with a weather forecast and a list of courses. The Golf agent substitutes (decision
  \<open>Substitute golf course due to weather\<close>, priority high, approval required) exactly when
  the rainfall is above 10, or the temperature is above 35, or the temperature is above 32 and
  the humidity above 80; otherwise it recommends a course to play, with priority medium or low.
  When the temperature is above 35, the rainfall is not above 10 and a course whose name
  contains \<open>Ba Na Hills\<close> is listed, the actions are the substitution to the first such
  course and an earlier tee time.
\<close>

theorem golf_weather_substitution:
  assumes "tripId c \<noteq> Absent" and "userId c \<noteq> Absent" and "date c \<noteq> Absent"
      and "location c = Val loc" and "isVietnamLocation loc"
      and "\<not> shouldSkipGolf (GolfOperationsAgent_collectSignals c)"
      and "weatherForecast c = Some wx" and "availableCourses c = Some cs"
  shows "\<exists>r. fst (GolfOperationsAgent_analyze B w c) = Inr r
           \<and> (if (\<exists>x. rainfall wx = Some x \<and> x > 10) \<or> temperature wx > 35
                  \<or> (temperature wx > 32 \<and> humidity wx > 80)
               then decision r = ''Substitute golf course due to weather''
                    \<and> priority r = High \<and> approvalRequired r
                    \<and> (temperature wx > 35 \<and> \<not> (\<exists>x. rainfall wx = Some x \<and> x > 10)
                         \<and> find (\<lambda>k. str_includes (name k) ''Ba Na Hills'') cs = Some b \<longrightarrow>
                        outputActions r =
                          [''Substitute to '' @ name b @ '' (cooler mountain climate)'',
                           ''Earlier tee time (before 8am)''])
               else r = recommendOptimalCourse B (GolfOperationsAgent_collectSignals c) c
                    \<and> decision r \<noteq> ''Substitute golf course due to weather''
                    \<and> priority r \<in> {Low, Medium} \<and> \<not> approvalRequired r)"
proof (cases "(\<exists>x. rainfall wx = Some x \<and> x > 10) \<or> temperature wx > 35
                  \<or> (temperature wx > 32 \<and> humidity wx > 80)")
  case True
  then have "shouldSubstituteCourse (GolfOperationsAgent_collectSignals c) c"
    using shouldSubstituteCourse_iff [OF assms(7)] by blast
  then have "fst (GolfOperationsAgent_analyze B w c) =
               recommendCourseSubstitution B (GolfOperationsAgent_collectSignals c) c"
    using golf_in_vietnam [OF assms(1-6), of B w] by simp
  then show ?thesis
    using True recommendCourseSubstitution_fields [OF assms(7,8), of B b] by auto
next
  case False
  then have "\<not> shouldSubstituteCourse (GolfOperationsAgent_collectSignals c) c"
    using shouldSubstituteCourse_iff [OF assms(7)] by blast
  then have e: "fst (GolfOperationsAgent_analyze B w c) =
               Inr (recommendOptimalCourse B (GolfOperationsAgent_collectSignals c) c)"
    using golf_in_vietnam [OF assms(1-6), of B w] by simp
  have d: "decision (recommendOptimalCourse B (GolfOperationsAgent_collectSignals c) c)
             \<noteq> ''Substitute golf course due to weather''"
    by (auto simp: recommendOptimalCourse_def createRecommendation_def Let_def
          split: list.splits option.splits)
  show ?thesis
    using False e d golf_branches(3) [of B "GolfOperationsAgent_collectSignals c" c]
    by simp
qed

text \<open>
  Scenario 2 with the courses of the repository's example: no substitution, priority medium.
\<close>

theorem golf_scenario2_no_substitution:
  "map_option temperature (weatherForecast scenario2_context) = Some 34
   \<and> map_option humidity (weatherForecast scenario2_context) = Some 78
   \<and> location scenario2_context = Val ''Da Nang, Vietnam''
   \<and> consecutiveGolfDays scenario2_context = 0
   \<and> ''Ba Na Hills Golf Club'' \<in> set (map name example_courses)
   \<and> availableCourses scenario2_context = Some example_courses
   \<and> map_sum id decision
        (fst (GolfOperationsAgent_analyze sample_builtins initial_world scenario2_context))
      = Inr ''Proceed with golf at Montgomerie Links Vietnam''
   \<and> map_sum id priority
        (fst (GolfOperationsAgent_analyze sample_builtins initial_world scenario2_context))
      = Inr Medium
   \<and> map_sum id approvalRequired
        (fst (GolfOperationsAgent_analyze sample_builtins initial_world scenario2_context))
      = Inr False"
  by code_simp

text \<open>The same day at 36 degrees: the substitution to Ba Na Hills.\<close>

theorem golf_weather_substitution_hot_day:
  "map_option temperature (weatherForecast hot_day_context) = Some 36
   \<and> (\<exists>r. fst (GolfOperationsAgent_analyze sample_builtins initial_world hot_day_context)
             = Inr r
          \<and> decision r = ''Substitute golf course due to weather''
          \<and> priority r = High \<and> approvalRequired r
          \<and> outputActions r =
               [''Substitute to Ba Na Hills Golf Club (cooler mountain climate)'',
                ''Earlier tee time (before 8am)''])"
proof -
  let ?wx = "\<lparr>condition = ''sunny'', temperature = 36, humidity = 78, rainfall = Some 0\<rparr>"
  let ?b = "\<lparr>name = ''Ba Na Hills Golf Club'', travelTime = 60, difficulty = Challenging,
             climate = Mountain\<rparr>"
  have k: "tripId hot_day_context \<noteq> Absent" "userId hot_day_context \<noteq> Absent"
    "date hot_day_context \<noteq> Absent" "location hot_day_context = Val ''Da Nang, Vietnam''"
    by (simp_all add: hot_day_context_def scenario2_context_def)
  have v: "isVietnamLocation ''Da Nang, Vietnam''"
    by code_simp
  have s: "\<not> shouldSkipGolf (GolfOperationsAgent_collectSignals hot_day_context)"
    by code_simp
  have x: "weatherForecast hot_day_context = Some ?wx"
    "availableCourses hot_day_context = Some example_courses"
    by (simp_all add: hot_day_context_def scenario2_context_def)
  have f: "find (\<lambda>k. str_includes (name k) ''Ba Na Hills'') example_courses = Some ?b"
    by code_simp
  show ?thesis
    using golf_weather_substitution [OF k v s x, of sample_builtins initial_world ?b] f x
    by auto
qed

section \<open>Budget: the thresholds\<close>








end
